theory Spec2Isabelle
  imports Main "HOL-Library.Word" "HOL-Library.Sublist" "HOL-Library.AList"
    "HOL-Library.Multiset"
begin

unbundle bit_operations_syntax

section \<open>JavaScript values and errors\<close>

text \<open>
  Objects are identified by a reference; two values are the same object exactly when
  their references are equal. \<open>JContainer\<close> refers to a \<open>Container\<close>, \<open>JInstance\<close> to
  an object built by \<open>new C(container)\<close>, and \<open>JHost\<close> to an object the worker is handed
  from outside (a D1 binding, a Drizzle handle, a configuration object). Numbers are
  taken to be integers.
\<close>

type_synonym ref = nat

datatype jsval =
    JUndefined
  | JNull
  | JBool bool
  | JNum int
  | JStr string
  | JContainer ref
  | JInstance ref
  | JHost nat

text \<open>
  Every \<open>throw\<close> of the modelled code is one of these values. The last one is not an
  exception of the program: it marks the one place where the model of \<open>resolve\<close>
  stops.
\<close>

datatype error =
    EnvironmentValidationFailed
  | ZodError
  | AuthSecretRequired
  | AuthSecretTooShort
  | ServiceNotRegistered string
  | NotAConstructor
  | FunctionConstructorError
  | InheritedProperty string

section \<open>Environment Loader (worker/config/environment.ts)\<close>

text \<open>
  Two checks of the schema are done by the JavaScript runtime and not by code of the
  repository: \<open>z.string().url()\<close> asks the URL parser, and \<open>z.coerce.number()\<close> calls
  \<open>Number(x)\<close>, which on a string is the runtime's string-to-number conversion (\<open>None\<close>
  stands for \<open>NaN\<close>). They are parameters of the model.
\<close>

record runtime =
  is_url :: "string \<Rightarrow> bool"
  string_to_number :: "string \<Rightarrow> int option"

datatype tier = Development | Staging | Production

fun tier_name :: "tier \<Rightarrow> string" where
  "tier_name Development = ''development''"
| "tier_name Staging = ''staging''"
| "tier_name Production = ''production''"

text \<open>
  The object handed to the worker. Its type annotation is \<open>Environment\<close>, but the values
  are whatever the platform bound, which is why the schema is run at all; a key that is
  absent reads as \<open>JUndefined\<close>.
\<close>

record raw_environment =
  raw_DB :: jsval
  raw_KV :: jsval
  raw_NODE_ENV :: jsval
  raw_DATABASE_URL :: jsval
  raw_BETTER_AUTH_SECRET :: jsval
  raw_BETTER_AUTH_URL :: jsval
  raw_GITHUB_CLIENT_ID :: jsval
  raw_GITHUB_CLIENT_SECRET :: jsval
  raw_GOOGLE_CLIENT_ID :: jsval
  raw_GOOGLE_CLIENT_SECRET :: jsval
  raw_SMTP_HOST :: jsval
  raw_SMTP_PORT :: jsval
  raw_SMTP_USER :: jsval
  raw_SMTP_PASS :: jsval
  raw_API_KEY :: jsval
  raw_WEBHOOK_SECRET :: jsval
  raw_REDIS_URL :: jsval
  raw_SENTRY_DSN :: jsval
  raw_CLOUDFLARE_ACCOUNT_ID :: jsval
  raw_CLOUDFLARE_DATABASE_ID :: jsval
  raw_CLOUDFLARE_D1_TOKEN :: jsval

text \<open>The result of \<open>EnvironmentSchema.parse\<close>: \<open>z.infer<typeof EnvironmentSchema>\<close>.\<close>

record environment =
  DB :: jsval
  KV :: jsval
  NODE_ENV :: tier
  DATABASE_URL :: "string option"
  BETTER_AUTH_SECRET :: "string option"
  BETTER_AUTH_URL :: "string option"
  GITHUB_CLIENT_ID :: "string option"
  GITHUB_CLIENT_SECRET :: "string option"
  GOOGLE_CLIENT_ID :: "string option"
  GOOGLE_CLIENT_SECRET :: "string option"
  SMTP_HOST :: "string option"
  SMTP_PORT :: "int option"
  SMTP_USER :: "string option"
  SMTP_PASS :: "string option"
  API_KEY :: "string option"
  WEBHOOK_SECRET :: "string option"
  REDIS_URL :: "string option"
  SENTRY_DSN :: "string option"
  CLOUDFLARE_ACCOUNT_ID :: "string option"
  CLOUDFLARE_DATABASE_ID :: "string option"
  CLOUDFLARE_D1_TOKEN :: "string option"

text \<open>
  The field schemas. The outer \<open>option\<close> is the outcome of the check (\<open>None\<close>: an issue
  is reported), the inner one the optional value.
\<close>

text \<open>\<open>z.enum(['development', 'staging', 'production']).default('development')\<close>\<close>

definition z_tier_default :: "jsval \<Rightarrow> tier option" where
  "z_tier_default v =
     (case v of
        JUndefined \<Rightarrow> Some Development
      | JStr s \<Rightarrow>
          (if s = ''development'' then Some Development
           else if s = ''staging'' then Some Staging
           else if s = ''production'' then Some Production
           else None)
      | _ \<Rightarrow> None)"

text \<open>\<open>z.string().optional()\<close>\<close>

definition z_string_optional :: "jsval \<Rightarrow> string option option" where
  "z_string_optional v =
     (case v of JUndefined \<Rightarrow> Some None | JStr s \<Rightarrow> Some (Some s) | _ \<Rightarrow> None)"

text \<open>\<open>z.string().min(32).optional()\<close>\<close>

definition z_string_min32_optional :: "jsval \<Rightarrow> string option option" where
  "z_string_min32_optional v =
     (case v of
        JUndefined \<Rightarrow> Some None
      | JStr s \<Rightarrow> (if 32 \<le> length s then Some (Some s) else None)
      | _ \<Rightarrow> None)"

text \<open>\<open>z.string().url().optional()\<close>\<close>

definition z_string_url_optional :: "runtime \<Rightarrow> jsval \<Rightarrow> string option option" where
  "z_string_url_optional rt v =
     (case v of
        JUndefined \<Rightarrow> Some None
      | JStr s \<Rightarrow> (if is_url rt s then Some (Some s) else None)
      | _ \<Rightarrow> None)"

text \<open>
  \<open>z.coerce.number().optional()\<close>: \<open>undefined\<close> is accepted as absent, any other input
  goes through \<open>Number(x)\<close> and is rejected when that is \<open>NaN\<close>, as it is for an object
  with no numeric primitive value.
\<close>

definition z_coerce_number_optional :: "runtime \<Rightarrow> jsval \<Rightarrow> int option option" where
  "z_coerce_number_optional rt v =
     (case v of
        JUndefined \<Rightarrow> Some None
      | JNull \<Rightarrow> Some (Some 0)
      | JBool b \<Rightarrow> Some (Some (if b then 1 else 0))
      | JNum n \<Rightarrow> Some (Some n)
      | JStr s \<Rightarrow> (case string_to_number rt s of None \<Rightarrow> None | Some n \<Rightarrow> Some (Some n))
      | _ \<Rightarrow> None)"

text \<open>
  \<open>EnvironmentSchema.parse\<close>: \<open>None\<close> when zod throws a \<open>ZodError\<close>. The two bindings
  are \<open>z.custom().optional()\<close> with no check, so any value passes; keys outside the
  schema are dropped.
\<close>

definition EnvironmentSchema_parse :: "runtime \<Rightarrow> raw_environment \<Rightarrow> environment option" where
  "EnvironmentSchema_parse rt e =
     Option.bind (z_tier_default (raw_NODE_ENV e)) (\<lambda>node_env.
     Option.bind (z_string_optional (raw_DATABASE_URL e)) (\<lambda>database_url.
     Option.bind (z_string_min32_optional (raw_BETTER_AUTH_SECRET e)) (\<lambda>auth_secret.
     Option.bind (z_string_url_optional rt (raw_BETTER_AUTH_URL e)) (\<lambda>auth_url.
     Option.bind (z_string_optional (raw_GITHUB_CLIENT_ID e)) (\<lambda>github_id.
     Option.bind (z_string_optional (raw_GITHUB_CLIENT_SECRET e)) (\<lambda>github_secret.
     Option.bind (z_string_optional (raw_GOOGLE_CLIENT_ID e)) (\<lambda>google_id.
     Option.bind (z_string_optional (raw_GOOGLE_CLIENT_SECRET e)) (\<lambda>google_secret.
     Option.bind (z_string_optional (raw_SMTP_HOST e)) (\<lambda>smtp_host.
     Option.bind (z_coerce_number_optional rt (raw_SMTP_PORT e)) (\<lambda>smtp_port.
     Option.bind (z_string_optional (raw_SMTP_USER e)) (\<lambda>smtp_user.
     Option.bind (z_string_optional (raw_SMTP_PASS e)) (\<lambda>smtp_pass.
     Option.bind (z_string_optional (raw_API_KEY e)) (\<lambda>api_key.
     Option.bind (z_string_optional (raw_WEBHOOK_SECRET e)) (\<lambda>webhook_secret.
     Option.bind (z_string_optional (raw_REDIS_URL e)) (\<lambda>redis_url.
     Option.bind (z_string_optional (raw_SENTRY_DSN e)) (\<lambda>sentry_dsn.
     Option.bind (z_string_optional (raw_CLOUDFLARE_ACCOUNT_ID e)) (\<lambda>cf_account.
     Option.bind (z_string_optional (raw_CLOUDFLARE_DATABASE_ID e)) (\<lambda>cf_database.
     Option.bind (z_string_optional (raw_CLOUDFLARE_D1_TOKEN e)) (\<lambda>cf_token.
       Some \<lparr> DB = raw_DB e, KV = raw_KV e, NODE_ENV = node_env,
              DATABASE_URL = database_url,
              BETTER_AUTH_SECRET = auth_secret, BETTER_AUTH_URL = auth_url,
              GITHUB_CLIENT_ID = github_id, GITHUB_CLIENT_SECRET = github_secret,
              GOOGLE_CLIENT_ID = google_id, GOOGLE_CLIENT_SECRET = google_secret,
              SMTP_HOST = smtp_host, SMTP_PORT = smtp_port,
              SMTP_USER = smtp_user, SMTP_PASS = smtp_pass,
              API_KEY = api_key, WEBHOOK_SECRET = webhook_secret,
              REDIS_URL = redis_url, SENTRY_DSN = sentry_dsn,
              CLOUDFLARE_ACCOUNT_ID = cf_account, CLOUDFLARE_DATABASE_ID = cf_database,
              CLOUDFLARE_D1_TOKEN = cf_token \<rparr>)))))))))))))))))))"

text \<open>The object literal \<open>{}\<close>: every key absent.\<close>

definition empty_object :: raw_environment where
  "empty_object =
     \<lparr> raw_DB = JUndefined, raw_KV = JUndefined, raw_NODE_ENV = JUndefined,
       raw_DATABASE_URL = JUndefined,
       raw_BETTER_AUTH_SECRET = JUndefined, raw_BETTER_AUTH_URL = JUndefined,
       raw_GITHUB_CLIENT_ID = JUndefined, raw_GITHUB_CLIENT_SECRET = JUndefined,
       raw_GOOGLE_CLIENT_ID = JUndefined, raw_GOOGLE_CLIENT_SECRET = JUndefined,
       raw_SMTP_HOST = JUndefined, raw_SMTP_PORT = JUndefined,
       raw_SMTP_USER = JUndefined, raw_SMTP_PASS = JUndefined,
       raw_API_KEY = JUndefined, raw_WEBHOOK_SECRET = JUndefined,
       raw_REDIS_URL = JUndefined, raw_SENTRY_DSN = JUndefined,
       raw_CLOUDFLARE_ACCOUNT_ID = JUndefined, raw_CLOUDFLARE_DATABASE_ID = JUndefined,
       raw_CLOUDFLARE_D1_TOKEN = JUndefined \<rparr>"

text \<open>
  \<open>validateEnvironment\<close>: the \<open>catch\<close> branch looks at \<open>env?.NODE_ENV\<close>, the field of
  the object as it was handed in (nothing was parsed), and compares it with the string
  \<open>'development'\<close>. The second \<open>parse\<close> is outside any \<open>try\<close>, so a \<open>ZodError\<close> of
  its own would leave the function as it is.
\<close>

definition validateEnvironment :: "runtime \<Rightarrow> raw_environment \<Rightarrow> error + environment" where
  "validateEnvironment rt env =
     (case EnvironmentSchema_parse rt env of
        Some parsed \<Rightarrow> Inr parsed
      | None \<Rightarrow>
          (if raw_NODE_ENV env = JStr ''development''
           then (case EnvironmentSchema_parse rt empty_object of
                   Some defaults \<Rightarrow> Inr defaults
                 | None \<Rightarrow> Inl ZodError)
           else Inl EnvironmentValidationFailed))"

text \<open>
  \<open>validateProductionEnvironment\<close>: \<open>!env.BETTER_AUTH_SECRET\<close> holds for an absent
  secret and for the empty string. The warning about a missing \<open>DB\<close> binding only
  prints.
\<close>

definition validateProductionEnvironment :: "environment \<Rightarrow> error + unit" where
  "validateProductionEnvironment env =
     (if NODE_ENV env = Production
      then (case BETTER_AUTH_SECRET env of
              None \<Rightarrow> Inl AuthSecretRequired
            | Some s \<Rightarrow>
                (if s = [] then Inl AuthSecretRequired
                 else if length s < 32 then Inl AuthSecretTooShort
                 else Inr ()))
      else Inr ())"

section \<open>Tiered Settings Table (worker/config/app-settings.ts)\<close>

record app_info =
  app_name :: string
  app_version :: string
  environment :: tier

record database_settings =
  maxConnections :: int
  queryTimeout :: int
  enableLogging :: bool
  retryAttempts :: int

record auth_core =
  sessionDuration :: int
  tokenExpiry :: int
  requireEmailVerification :: bool

record auth_settings = auth_core +
  allowedDomains :: "string list option"

record features_group =
  registration :: bool
  oauth :: bool
  emailVerification :: bool
  maintenanceMode :: bool
  betaFeatures :: bool

record rateLimit_group =
  requests :: int
  windowMs :: int
  skipSuccessfulRequests :: bool
  skipFailedRequests :: bool

datatype log_level = Debug | Info | Warn | Error

record logging_group =
  level :: log_level
  enableRequestLogging :: bool
  enableErrorTracking :: bool
  maxLogSize :: int

record email_templates =
  template_welcome :: string
  template_passwordReset :: string
  template_emailVerification :: string

record email_settings =
  from_address :: string
  replyTo :: "string option"
  templates :: email_templates

record performance_group =
  enableCaching :: bool
  cacheTimeout :: int
  enableCompression :: bool

record security_group =
  corsOrigins :: "string list"
  allowedHosts :: "string list"
  enableCSP :: bool
  rateLimitStrict :: bool

record openapi_contact =
  contact_name :: string
  contact_email :: string

record openapi_license =
  license_name :: string
  license_url :: string

record openapi_server =
  server_url :: string
  server_description :: string

record openapi_tag =
  tag_name :: string
  tag_description :: string

record openapi_info =
  openapi_version :: string
  title :: string
  description :: string
  contact :: openapi_contact
  license :: openapi_license
  servers :: "openapi_server list"
  tags :: "openapi_tag list"

record api_group =
  openapi :: openapi_info

text \<open>\<open>AppSettings\<close>: one bundle per tier. The fields carry the prefix \<open>s_\<close>.\<close>

record AppSettings =
  s_app :: app_info
  s_database :: database_settings
  s_auth :: auth_settings
  s_features :: features_group
  s_rateLimit :: rateLimit_group
  s_logging :: logging_group
  s_email :: email_settings
  s_performance :: performance_group
  s_security :: security_group
  s_api :: api_group

definition openapi_tags :: "openapi_tag list" where
  "openapi_tags =
     [ \<lparr> tag_name = ''Users'', tag_description = ''User profile management operations'' \<rparr>,
       \<lparr> tag_name = ''Authentication'',
         tag_description = ''User authentication and authorization'' \<rparr>,
       \<lparr> tag_name = ''System'', tag_description = ''System health and utility endpoints'' \<rparr> ]"

definition openapi_description :: string where
  "openapi_description =
     ''A comprehensive API built with Hono, featuring RPC type safety and OpenAPI documentation''"

definition developmentSettings :: AppSettings where
  "developmentSettings =
     \<lparr> s_app = \<lparr> app_name = ''Modern Template'', app_version = ''1.0.0'',
                 environment = Development \<rparr>,
       s_database = \<lparr> maxConnections = 5, queryTimeout = 10000, enableLogging = True,
                      retryAttempts = 3 \<rparr>,
       s_auth = \<lparr> sessionDuration = 24 * 60 * 60 * 1000, tokenExpiry = 15 * 60 * 1000,
                  requireEmailVerification = False,
                  allowedDomains = Some [''localhost'', ''127.0.0.1''] \<rparr>,
       s_features = \<lparr> registration = True, oauth = False, emailVerification = False,
                      maintenanceMode = True, betaFeatures = True \<rparr>,
       s_rateLimit = \<lparr> requests = 1000, windowMs = 60000, skipSuccessfulRequests = False,
                       skipFailedRequests = False \<rparr>,
       s_logging = \<lparr> level = Debug, enableRequestLogging = True, enableErrorTracking = True,
                     maxLogSize = 1024 * 1024 \<rparr>,
       s_email = \<lparr> from_address = ''dev@yourapp.com'', replyTo = Some ''dev@yourapp.com'',
                   templates = \<lparr> template_welcome = ''Welcome to our app (Dev)'',
                                 template_passwordReset = ''Password reset (Dev)'',
                                 template_emailVerification = ''Verify your email (Dev)'' \<rparr> \<rparr>,
       s_performance = \<lparr> enableCaching = False, cacheTimeout = 300000,
                         enableCompression = False \<rparr>,
       s_security = \<lparr> corsOrigins = [''http://localhost:5173'', ''http://localhost:3000''],
                      allowedHosts = [''localhost'', ''127.0.0.1''],
                      enableCSP = False, rateLimitStrict = False \<rparr>,
       s_api = \<lparr> openapi =
                 \<lparr> openapi_version = ''1.0.0'', title = ''Fullstack Template API'',
                   description = openapi_description,
                   contact = \<lparr> contact_name = ''API Support'',
                               contact_email = ''dev@yourapp.com'' \<rparr>,
                   license = \<lparr> license_name = ''MIT'',
                               license_url = ''https://opensource.org/licenses/MIT'' \<rparr>,
                   servers = [ \<lparr> server_url = ''/'',
                                 server_description = ''Development server'' \<rparr>,
                               \<lparr> server_url = ''http://localhost:5173'',
                                 server_description = ''Local development server'' \<rparr> ],
                   tags = openapi_tags \<rparr> \<rparr> \<rparr>"

definition stagingSettings :: AppSettings where
  "stagingSettings =
     \<lparr> s_app = \<lparr> app_name = ''Modern Template'', app_version = ''1.0.0'',
                 environment = Staging \<rparr>,
       s_database = \<lparr> maxConnections = 10, queryTimeout = 20000, enableLogging = True,
                      retryAttempts = 3 \<rparr>,
       s_auth = \<lparr> sessionDuration = 7 * 24 * 60 * 60 * 1000, tokenExpiry = 30 * 60 * 1000,
                  requireEmailVerification = True, allowedDomains = None \<rparr>,
       s_features = \<lparr> registration = True, oauth = True, emailVerification = True,
                      maintenanceMode = False, betaFeatures = True \<rparr>,
       s_rateLimit = \<lparr> requests = 500, windowMs = 60000, skipSuccessfulRequests = True,
                       skipFailedRequests = False \<rparr>,
       s_logging = \<lparr> level = Info, enableRequestLogging = True, enableErrorTracking = True,
                     maxLogSize = 5 * 1024 * 1024 \<rparr>,
       s_email = \<lparr> from_address = ''staging@yourapp.com'',
                   replyTo = Some ''support@yourapp.com'',
                   templates = \<lparr> template_welcome = ''Welcome to our app'',
                                 template_passwordReset = ''Password reset request'',
                                 template_emailVerification = ''Verify your email address'' \<rparr> \<rparr>,
       s_performance = \<lparr> enableCaching = True, cacheTimeout = 600000,
                         enableCompression = True \<rparr>,
       s_security = \<lparr> corsOrigins = [''https://staging.yourapp.com''],
                      allowedHosts = [''staging.yourapp.com''],
                      enableCSP = True, rateLimitStrict = True \<rparr>,
       s_api = \<lparr> openapi =
                 \<lparr> openapi_version = ''1.0.0'', title = ''Fullstack Template API'',
                   description = openapi_description,
                   contact = \<lparr> contact_name = ''API Support'',
                               contact_email = ''support@yourapp.com'' \<rparr>,
                   license = \<lparr> license_name = ''MIT'',
                               license_url = ''https://opensource.org/licenses/MIT'' \<rparr>,
                   servers = [ \<lparr> server_url = ''https://staging.yourapp.com/api/v1'',
                                 server_description = ''Staging server'' \<rparr> ],
                   tags = openapi_tags \<rparr> \<rparr> \<rparr>"

definition productionSettings :: AppSettings where
  "productionSettings =
     \<lparr> s_app = \<lparr> app_name = ''Modern Template'', app_version = ''1.0.0'',
                 environment = Production \<rparr>,
       s_database = \<lparr> maxConnections = 20, queryTimeout = 30000, enableLogging = False,
                      retryAttempts = 5 \<rparr>,
       s_auth = \<lparr> sessionDuration = 7 * 24 * 60 * 60 * 1000, tokenExpiry = 60 * 60 * 1000,
                  requireEmailVerification = True, allowedDomains = None \<rparr>,
       s_features = \<lparr> registration = True, oauth = True, emailVerification = True,
                      maintenanceMode = False, betaFeatures = False \<rparr>,
       s_rateLimit = \<lparr> requests = 100, windowMs = 60000, skipSuccessfulRequests = True,
                       skipFailedRequests = False \<rparr>,
       s_logging = \<lparr> level = Warn, enableRequestLogging = False, enableErrorTracking = True,
                     maxLogSize = 10 * 1024 * 1024 \<rparr>,
       s_email = \<lparr> from_address = ''noreply@yourapp.com'',
                   replyTo = Some ''support@yourapp.com'',
                   templates = \<lparr> template_welcome = ''Welcome to our app'',
                                 template_passwordReset = ''Password reset request'',
                                 template_emailVerification = ''Verify your email address'' \<rparr> \<rparr>,
       s_performance = \<lparr> enableCaching = True, cacheTimeout = 3600000,
                         enableCompression = True \<rparr>,
       s_security = \<lparr> corsOrigins = [''https://yourapp.com'', ''https://www.yourapp.com''],
                      allowedHosts = [''yourapp.com'', ''www.yourapp.com''],
                      enableCSP = True, rateLimitStrict = True \<rparr>,
       s_api = \<lparr> openapi =
                 \<lparr> openapi_version = ''1.0.0'', title = ''Fullstack Template API'',
                   description = openapi_description,
                   contact = \<lparr> contact_name = ''API Support'',
                               contact_email = ''support@yourapp.com'' \<rparr>,
                   license = \<lparr> license_name = ''MIT'',
                               license_url = ''https://opensource.org/licenses/MIT'' \<rparr>,
                   servers = [ \<lparr> server_url = ''https://yourapp.com'',
                                 server_description = ''Production server'' \<rparr> ],
                   tags = openapi_tags \<rparr> \<rparr> \<rparr>"

text \<open>\<open>getAppSettings\<close>: a \<open>switch\<close> on the string, \<open>default\<close> as \<open>'development'\<close>.\<close>

definition getAppSettings :: "string \<Rightarrow> AppSettings" where
  "getAppSettings env_name =
     (if env_name = ''production'' then productionSettings
      else if env_name = ''staging'' then stagingSettings
      else developmentSettings)"

section \<open>Config Composer (worker/config/index.ts)\<close>

record database_config = database_settings +
  url :: "string option"

record oauth_client =
  clientId :: "string option"
  clientSecret :: "string option"

record oauth_providers =
  github :: oauth_client
  google :: oauth_client

record auth_config = auth_core +
  secret :: "string option"
  baseUrl :: "string option"
  auth_oauth :: oauth_providers

record smtp_config =
  smtp_host :: "string option"
  smtp_port :: "int option"
  smtp_user :: "string option"
  smtp_pass :: "string option"

record email_config = email_settings +
  smtp :: "smtp_config option"

record external_group =
  apiKey :: "string option"
  webhookSecret :: "string option"
  sentryDsn :: "string option"
  redisUrl :: "string option"

record AppConfig =
  app :: app_info
  database :: database_config
  auth :: auth_config
  email :: email_config
  features :: features_group
  rateLimit :: rateLimit_group
  logging :: logging_group
  performance :: performance_group
  security :: security_group
  api :: api_group
  external :: external_group

text \<open>A string is truthy when it is present and not empty.\<close>

definition truthy_string :: "string option \<Rightarrow> bool" where
  "truthy_string s = (case s of None \<Rightarrow> False | Some t \<Rightarrow> t \<noteq> [])"

text \<open>
  \<open>createConfig\<close>: validate, select the bundle by the validated tier, run the production
  check, then assemble the object literal.
\<close>

definition createConfig :: "runtime \<Rightarrow> raw_environment \<Rightarrow> error + AppConfig" where
  "createConfig rt env =
     (case validateEnvironment rt env of
        Inl e \<Rightarrow> Inl e
      | Inr validated \<Rightarrow>
          (let appSettings = getAppSettings (tier_name (NODE_ENV validated)) in
           (case (if NODE_ENV validated = Production
                  then validateProductionEnvironment validated else Inr ()) of
              Inl e \<Rightarrow> Inl e
            | Inr _ \<Rightarrow>
                Inr \<lparr> app = s_app appSettings,
                      database =
                        \<lparr> maxConnections = maxConnections (s_database appSettings),
                          queryTimeout = queryTimeout (s_database appSettings),
                          enableLogging = enableLogging (s_database appSettings),
                          retryAttempts = retryAttempts (s_database appSettings),
                          url = DATABASE_URL validated \<rparr>,
                      auth =
                        \<lparr> sessionDuration = sessionDuration (s_auth appSettings),
                          tokenExpiry = tokenExpiry (s_auth appSettings),
                          requireEmailVerification =
                            requireEmailVerification (s_auth appSettings),
                          secret = BETTER_AUTH_SECRET validated,
                          baseUrl = BETTER_AUTH_URL validated,
                          auth_oauth =
                            \<lparr> github = \<lparr> clientId = GITHUB_CLIENT_ID validated,
                                         clientSecret = GITHUB_CLIENT_SECRET validated \<rparr>,
                              google = \<lparr> clientId = GOOGLE_CLIENT_ID validated,
                                         clientSecret = GOOGLE_CLIENT_SECRET validated \<rparr> \<rparr> \<rparr>,
                      email =
                        \<lparr> from_address = from_address (s_email appSettings),
                          replyTo = replyTo (s_email appSettings),
                          templates = templates (s_email appSettings),
                          smtp =
                            (if truthy_string (SMTP_HOST validated)
                             then Some \<lparr> smtp_host = SMTP_HOST validated,
                                         smtp_port = SMTP_PORT validated,
                                         smtp_user = SMTP_USER validated,
                                         smtp_pass = SMTP_PASS validated \<rparr>
                             else None) \<rparr>,
                      features = s_features appSettings,
                      rateLimit = s_rateLimit appSettings,
                      logging = s_logging appSettings,
                      performance = s_performance appSettings,
                      security = s_security appSettings,
                      api = s_api appSettings,
                      external =
                        \<lparr> apiKey = API_KEY validated,
                          webhookSecret = WEBHOOK_SECRET validated,
                          sentryDsn = SENTRY_DSN validated,
                          redisUrl = REDIS_URL validated \<rparr> \<rparr>)))"

section \<open>Feature Flag Evaluator (worker/lib/feature-flags.ts)\<close>

text \<open>
  \<open>User\<close>, as far as the evaluator and the container read it. \<open>id\<close>, \<open>name\<close> and
  \<open>email\<close> carry the prefix \<open>user_\<close>.
\<close>

record user =
  user_id :: string
  user_name :: "string option"
  user_email :: string
  emailVerified :: bool
  role :: "string option"

datatype user_rule_type = User_id | Email | Role | Email_domain

datatype user_rule_operator = Equals | Contains | Starts_with | Ends_with | In

text \<open>\<open>value: string | string[]\<close>\<close>

datatype user_rule_value = Single string | Many "string list"

record UserRule =
  rule_type :: user_rule_type
  operator :: user_rule_operator
  rule_value :: user_rule_value

record FeatureFlag =
  key :: string
  enabled :: bool
  flag_description :: "string option"
  rolloutPercentage :: "int option"
  userRules :: "UserRule list option"
  environments :: "string list option"

text \<open>
  The class keeps a \<open>Map<string, FeatureFlag>\<close>: an association list in insertion
  order. \<open>Map.set\<close> replaces the value of a key that is present where it stands and
  appends a new key.
\<close>

record FeatureFlags =
  flags :: "(string \<times> FeatureFlag) list"

definition loadFlags :: "FeatureFlags \<Rightarrow> FeatureFlag list \<Rightarrow> FeatureFlags" where
  "loadFlags ff fs =
     ff \<lparr> flags := fold (\<lambda>flag m. AList.update (key flag) flag m) fs (flags ff) \<rparr>"

text \<open>The constructor takes the configuration as \<open>_config\<close> and does not read it.\<close>

definition new_FeatureFlags :: "AppConfig \<Rightarrow> FeatureFlag list \<Rightarrow> FeatureFlags" where
  "new_FeatureFlags config initialFlags = loadFlags \<lparr> flags = [] \<rparr> initialFlags"

definition setFlag :: "FeatureFlags \<Rightarrow> FeatureFlag \<Rightarrow> FeatureFlags" where
  "setFlag ff flag = ff \<lparr> flags := AList.update (key flag) flag (flags ff) \<rparr>"

definition removeFlag :: "FeatureFlags \<Rightarrow> string \<Rightarrow> FeatureFlags" where
  "removeFlag ff k = ff \<lparr> flags := AList.delete k (flags ff) \<rparr>"

text \<open>\<open>String.prototype.split\<close> with a one-character separator.\<close>

fun split_on :: "char \<Rightarrow> string \<Rightarrow> string list" where
  "split_on sep [] = [[]]"
| "split_on sep (c # cs) =
     (if c = sep then [] # split_on sep cs
      else (case split_on sep cs of [] \<Rightarrow> [[c]] | p # ps \<Rightarrow> (c # p) # ps))"

definition matchesValue :: "string \<Rightarrow> user_rule_operator \<Rightarrow> user_rule_value \<Rightarrow> bool" where
  "matchesValue userValue op ruleValue =
     (case op of
        Equals \<Rightarrow> (case ruleValue of Single s \<Rightarrow> userValue = s | Many _ \<Rightarrow> False)
      | Contains \<Rightarrow> (case ruleValue of Single s \<Rightarrow> sublist s userValue | Many _ \<Rightarrow> False)
      | Starts_with \<Rightarrow> (case ruleValue of Single s \<Rightarrow> prefix s userValue | Many _ \<Rightarrow> False)
      | Ends_with \<Rightarrow> (case ruleValue of Single s \<Rightarrow> suffix s userValue | Many _ \<Rightarrow> False)
      | In \<Rightarrow> (case ruleValue of Single _ \<Rightarrow> False | Many vs \<Rightarrow> userValue \<in> set vs))"

definition matchesUserRule :: "UserRule \<Rightarrow> user \<Rightarrow> bool" where
  "matchesUserRule rule u =
     (let userValue =
        (case rule_type rule of
           User_id \<Rightarrow> user_id u
         | Email \<Rightarrow> user_email u
         | Role \<Rightarrow> (case role u of None \<Rightarrow> [] | Some r \<Rightarrow> r)
         | Email_domain \<Rightarrow>
             (case split_on (CHR ''@'') (user_email u) of _ # d # _ \<Rightarrow> d | _ \<Rightarrow> []))
      in matchesValue userValue (operator rule) (rule_value rule))"

text \<open>\<open>evaluateUserRules\<close> returns \<open>true\<close> at the first match and \<open>null\<close> otherwise.\<close>

fun evaluateUserRules :: "UserRule list \<Rightarrow> user \<Rightarrow> bool option" where
  "evaluateUserRules [] u = None"
| "evaluateUserRules (rule # rules) u =
     (if matchesUserRule rule u then Some True else evaluateUserRules rules u)"

text \<open>
  The rolling hash: \<open>(hash << 5) - hash + char\<close> followed by \<open>hash & hash\<close>, which
  brings the value back to a signed 32-bit integer, so the loop is arithmetic on 32-bit
  words read as signed.
\<close>

definition rollout_hash :: "string \<Rightarrow> 32 word" where
  "rollout_hash seed = fold (\<lambda>c hash. push_bit 5 hash - hash + of_nat (of_char c)) seed 0"

definition shouldRolloutToUser :: "string \<Rightarrow> user option \<Rightarrow> int \<Rightarrow> bool" where
  "shouldRolloutToUser flagKey u percentage =
     (if 100 \<le> percentage then True
      else if percentage \<le> 0 then False
      else
        (let identifier =
               (case u of
                  None \<Rightarrow> ''anonymous''
                | Some usr \<Rightarrow> (if user_id usr = [] then ''anonymous'' else user_id usr));
             seed = flagKey @ '':'' @ identifier;
             userPercentage = \<bar>sint (rollout_hash seed)\<bar> mod 100
         in userPercentage < percentage))"

text \<open>
  \<open>isEnabled\<close>. The environment check compares against the constant
  \<open>const currentEnv = 'development'\<close>, which the source comments with
  ``Will use actual env when integrated''.
\<close>

definition isEnabled :: "FeatureFlags \<Rightarrow> string \<Rightarrow> user option \<Rightarrow> bool" where
  "isEnabled ff flagKey u =
     (case map_of (flags ff) flagKey of
        None \<Rightarrow> False
      | Some flag \<Rightarrow>
          (if \<not> enabled flag then False
           else if (case environments flag of
                      None \<Rightarrow> False
                    | Some envs \<Rightarrow>
                        (let currentEnv = ''development''
                         in envs \<noteq> [] \<and> currentEnv \<notin> set envs))
           then False
           else
             (case (case (u, userRules flag) of
                      (Some usr, Some rules) \<Rightarrow> evaluateUserRules rules usr
                    | _ \<Rightarrow> None) of
                Some userRuleResult \<Rightarrow> userRuleResult
              | None \<Rightarrow>
                  (case rolloutPercentage flag of
                     Some percentage \<Rightarrow> shouldRolloutToUser flagKey u percentage
                   | None \<Rightarrow> enabled flag))))"

definition createDefaultFeatureFlags :: "AppConfig \<Rightarrow> FeatureFlag list" where
  "createDefaultFeatureFlags config =
     [ \<lparr> key = ''registration'', enabled = registration (features config),
         flag_description = Some ''Allow new user registration'',
         rolloutPercentage = None, userRules = None, environments = None \<rparr>,
       \<lparr> key = ''oauth'', enabled = oauth (features config),
         flag_description = Some ''Enable OAuth authentication'',
         rolloutPercentage = None, userRules = None, environments = None \<rparr>,
       \<lparr> key = ''maintenance_mode'', enabled = maintenanceMode (features config),
         flag_description = Some ''Site-wide maintenance mode'',
         rolloutPercentage = None, userRules = None, environments = None \<rparr>,
       \<lparr> key = ''new_ui'', enabled = True,
         flag_description = Some ''Enable new user interface'',
         rolloutPercentage = Some 10, userRules = None,
         environments = Some [''staging'', ''production''] \<rparr>,
       \<lparr> key = ''admin_panel'', enabled = True,
         flag_description = Some ''Enable admin panel access'',
         rolloutPercentage = None,
         userRules = Some [ \<lparr> rule_type = Role, operator = Equals,
                               rule_value = Single ''admin'' \<rparr> ],
         environments = None \<rparr>,
       \<lparr> key = ''beta_features'', enabled = True,
         flag_description = Some ''Enable beta features for internal users'',
         rolloutPercentage = None,
         userRules = Some [ \<lparr> rule_type = Email_domain, operator = Equals,
                               rule_value = Single ''yourcompany.com'' \<rparr> ],
         environments = None \<rparr> ]"

definition createFeatureFlags :: "AppConfig \<Rightarrow> FeatureFlags" where
  "createFeatureFlags config = new_FeatureFlags config (createDefaultFeatureFlags config)"

section \<open>Base Service helpers (worker/services/base.service.ts)\<close>

text \<open>
  The helpers receive an array, which in JavaScript is a reference to a mutable object.
  The store holds the contents of every array; a reference is the position of its array
  in the store, and \<open>slice\<close> and \<open>filter\<close> allocate a new array at the end. The
  helpers are generic in the element type \<open>U\<close>; a field of an element is given by its
  accessor.
\<close>

type_synonym 'u arrays = "'u list list"

text \<open>The value of \<open>Math.ceil(total / limit)\<close>.\<close>

datatype jsnumber = Num int | Infinity | NaN

record pagination_info =
  page :: int
  limit :: int
  total_count :: int
  pages :: jsnumber

record PaginatedResult =
  data :: ref
  pagination :: pagination_info

record pagination_options =
  opt_page :: int
  opt_limit :: int

text \<open>
  \<open>Array.prototype.slice(start, end)\<close>: a negative index counts from the end, and
  both are clamped to the array.
\<close>

definition js_slice :: "'u list \<Rightarrow> int \<Rightarrow> int \<Rightarrow> 'u list" where
  "js_slice xs start fin =
     (let n = int (length xs);
          k = (if start < 0 then max (n + start) 0 else min start n);
          f = (if fin < 0 then max (n + fin) 0 else min fin n)
      in take (nat (f - k)) (drop (nat k) xs))"

definition ceil_quotient :: "int \<Rightarrow> int \<Rightarrow> jsnumber" where
  "ceil_quotient a b =
     (if b = 0 then (if a = 0 then NaN else Infinity) else Num (- ((- a) div b)))"

definition applyPagination ::
  "'u arrays \<Rightarrow> ref \<Rightarrow> pagination_options \<Rightarrow> 'u arrays \<times> PaginatedResult" where
  "applyPagination h items options =
     (let total = int (length (h ! items));
          pgs = ceil_quotient total (opt_limit options);
          offset = (opt_page options - 1) * opt_limit options;
          slice = js_slice (h ! items) offset (offset + opt_limit options)
      in (h @ [slice],
          \<lparr> data = length h,
            pagination = \<lparr> page = opt_page options, limit = opt_limit options,
                           total_count = total, pages = pgs \<rparr> \<rparr>))"

datatype sort_order = Asc | Desc

text \<open>
  \<open>Array.prototype.sort(compare)\<close> sorts the array in place, stably, and returns the
  same array. Insertion from the right is such a stable sort: an element goes in front
  of the first element it does not compare greater than. Where the comparator is not
  consistent (it may answer 0 for keys that differ) the language leaves the resulting
  order to the engine; what every engine gives is a rearrangement of the elements.
\<close>

fun insert_sorted :: "('u \<Rightarrow> 'u \<Rightarrow> int) \<Rightarrow> 'u \<Rightarrow> 'u list \<Rightarrow> 'u list" where
  "insert_sorted cmp x [] = [x]"
| "insert_sorted cmp x (y # ys) =
     (if cmp x y \<le> 0 then x # y # ys else y # insert_sorted cmp x ys)"

definition js_sort :: "('u \<Rightarrow> 'u \<Rightarrow> int) \<Rightarrow> 'u list \<Rightarrow> 'u list" where
  "js_sort cmp xs = foldr (insert_sorted cmp) xs []"

text \<open>
  The fields of an element are of type \<open>unknown\<close>, so what \<open>a > b\<close> and \<open>a < b\<close>
  answer is the relational comparison of the runtime on whatever values the field holds:
  numbers by size, strings by code units, and false both ways where a key is
  \<open>undefined\<close> or \<open>NaN\<close> or the two keys are of unlike types. The two operators are
  given as relations on the values of the field.
\<close>

record 'v relational =
  op_gt :: "'v \<Rightarrow> 'v \<Rightarrow> bool"
  op_lt :: "'v \<Rightarrow> 'v \<Rightarrow> bool"

text \<open>
  The comparator of \<open>applySorting\<close>. \<open>sortBy\<close> is the accessor of the field. Where
  neither operator holds the comparison is 0, also for keys that differ.
\<close>

definition sort_compare ::
  "'v relational \<Rightarrow> ('u \<Rightarrow> 'v) \<Rightarrow> sort_order \<Rightarrow> 'u \<Rightarrow> 'u \<Rightarrow> int" where
  "sort_compare ops sortBy sortOrder a b =
     (let aValue = sortBy a;
          bValue = sortBy b;
          comparison = (if op_gt ops aValue bValue then 1
                        else if op_lt ops aValue bValue then - 1 else 0)
      in if sortOrder = Asc then comparison else - comparison)"

definition applySorting ::
  "'v relational \<Rightarrow> 'u arrays \<Rightarrow> ref \<Rightarrow> ('u \<Rightarrow> 'v) \<Rightarrow> sort_order \<Rightarrow> 'u arrays \<times> ref" where
  "applySorting ops h items sortBy sortOrder =
     (h[items := js_sort (sort_compare ops sortBy sortOrder) (h ! items)], items)"

text \<open>
  \<open>applyTextSearch\<close>: each element of \<open>searchFields\<close> gives \<open>String(item[field])\<close>,
  and \<open>toLowerCase\<close> is \<open>String.prototype.toLowerCase\<close>, code of the runtime and a
  parameter here. An empty term returns the array that was passed in, not a copy.
\<close>

definition applyTextSearch ::
  "(string \<Rightarrow> string) \<Rightarrow> 'u arrays \<Rightarrow> ref \<Rightarrow> string \<Rightarrow> ('u \<Rightarrow> string) list \<Rightarrow>
     'u arrays \<times> ref" where
  "applyTextSearch toLowerCase h items searchTerm searchFields =
     (if searchTerm = [] then (h, items)
      else
        (let term = toLowerCase searchTerm
         in (h @ [filter (\<lambda>item. list_ex (\<lambda>field. sublist term (toLowerCase (field item)))
                                     searchFields)
                        (h ! items)],
             length h)))"

section \<open>Service Container (worker/container/container.ts)\<close>

text \<open>
  A registered constructor is either a class, named here by a string, or the arrow
  function \<open>() => value\<close> that \<open>registerValue\<close> stores, which cannot be called with
  \<open>new\<close>.
\<close>

datatype service_constructor = Class string | ValueThunk jsval

text \<open>
  One entry of \<open>ServiceRegistry\<close>. A missing \<open>instance\<close> key reads as \<open>undefined\<close>,
  which is the only way the container reads it, so the field holds \<open>JUndefined\<close> then.
\<close>

record registration =
  constructor :: service_constructor
  singleton :: bool
  instance_value :: jsval

text \<open>
  The registry is the object literal \<open>{}\<close>, used as a dictionary. Such an object has its
  own properties (\<open>own\<close>, in insertion order) and inherits those of its prototype, which
  is \<open>Object.prototype\<close> (\<open>proto = None\<close>) unless an assignment to the key
  \<open>__proto__\<close> has replaced it by the object assigned (\<open>proto = Some r\<close>).
\<close>

record registry =
  own :: "(string \<times> registration) list"
  proto :: "registration option"

text \<open>The function-valued properties of \<open>Object.prototype\<close>.\<close>

definition object_prototype_functions :: "string list" where
  "object_prototype_functions =
     [''constructor'', ''hasOwnProperty'', ''isPrototypeOf'', ''propertyIsEnumerable'',
      ''toLocaleString'', ''toString'', ''valueOf'', ''__defineGetter__'',
      ''__defineSetter__'', ''__lookupGetter__'', ''__lookupSetter__'']"

text \<open>What \<open>this.registry[token]\<close> reads.\<close>

datatype property =
    Registered registration
  | ObjectPrototype
  | BuiltinFunction
  | InheritedField
  | Absent

definition registry_get :: "registry \<Rightarrow> string \<Rightarrow> property" where
  "registry_get reg token =
     (if token = ''__proto__''
      then (case proto reg of None \<Rightarrow> ObjectPrototype | Some r \<Rightarrow> Registered r)
      else
        (case map_of (own reg) token of
           Some r \<Rightarrow> Registered r
         | None \<Rightarrow>
             (case proto reg of
                Some r \<Rightarrow>
                  (if token = ''constructor'' \<or> token = ''singleton'' then InheritedField
                   else if token = ''instance''
                   then (if instance_value r = JUndefined then Absent else InheritedField)
                   else if token \<in> set object_prototype_functions then BuiltinFunction
                   else Absent)
              | None \<Rightarrow>
                  (if token \<in> set object_prototype_functions then BuiltinFunction
                   else Absent))))"

text \<open>
  \<open>this.registry[token] = r\<close>: an own property is created or overwritten, except for
  \<open>__proto__\<close>, whose setter makes \<open>r\<close> the prototype.
\<close>

definition registry_set :: "registry \<Rightarrow> string \<Rightarrow> registration \<Rightarrow> registry" where
  "registry_set reg token r =
     (if token = ''__proto__'' then reg \<lparr> proto := Some r \<rparr>
      else reg \<lparr> own := AList.update token r (own reg) \<rparr>)"

text \<open>\<open>registration.instance = instance\<close>, on the registration that the token read.\<close>

definition registry_cache :: "registry \<Rightarrow> string \<Rightarrow> jsval \<Rightarrow> registry" where
  "registry_cache reg token inst =
     (if token = ''__proto__''
      then reg \<lparr> proto := map_option (\<lambda>r. r \<lparr> instance_value := inst \<rparr>) (proto reg) \<rparr>
      else reg \<lparr> own := map (\<lambda>(k, r). if k = token then (k, r \<lparr> instance_value := inst \<rparr>)
                                      else (k, r)) (own reg) \<rparr>)"

text \<open>
  A container holds a reference to its registry and its own context; the context's
  \<open>container\<close> field is the container itself.
\<close>

record container =
  registry_ref :: ref
  env :: raw_environment
  user :: "user option"

text \<open>
  The store: the containers, the registry objects, and the objects built by
  \<open>new C(container)\<close>, each recorded with its class and the container it was given.
\<close>

record state =
  containers :: "container list"
  registries :: "registry list"
  instances :: "(string \<times> ref) list"

definition empty_state :: state where
  "empty_state = \<lparr> containers = [], registries = [], instances = [] \<rparr>"

text \<open>\<open>this\<close> is a container of the store, and so is its registry.\<close>

definition valid_container :: "state \<Rightarrow> ref \<Rightarrow> bool" where
  "valid_container s this =
     (this < length (containers s) \<and>
      registry_ref (containers s ! this) < length (registries s))"

definition registry_of :: "state \<Rightarrow> ref \<Rightarrow> registry" where
  "registry_of s this = registries s ! registry_ref (containers s ! this)"

definition new_Container :: "state \<Rightarrow> raw_environment \<Rightarrow> user option \<Rightarrow> state \<times> ref" where
  "new_Container s e u =
     (s \<lparr> containers :=
             containers s @ [\<lparr> registry_ref = length (registries s), env = e, user = u \<rparr>],
          registries := registries s @ [\<lparr> own = [], proto = None \<rparr>] \<rparr>,
      length (containers s))"

text \<open>
  \<open>withUser\<close>: a new container (with a registry of its own, dropped at once) whose
  \<open>registry\<close> field is then pointed at the registry of \<open>this\<close>.
\<close>

definition withUser :: "state \<Rightarrow> ref \<Rightarrow> user \<Rightarrow> state \<times> ref" where
  "withUser s this u =
     (case new_Container s (env (containers s ! this)) (Some u) of
        (s1, newContainer) \<Rightarrow>
          (s1 \<lparr> containers :=
                  (containers s1)[newContainer :=
                     (containers s1 ! newContainer)
                       \<lparr> registry_ref := registry_ref (containers s1 ! this) \<rparr>] \<rparr>,
           newContainer))"

definition setUser :: "state \<Rightarrow> ref \<Rightarrow> user \<Rightarrow> state" where
  "setUser s this u =
     s \<lparr> containers := (containers s)[this := (containers s ! this) \<lparr> user := Some u \<rparr>] \<rparr>"

definition getContext :: "state \<Rightarrow> ref \<Rightarrow> container" where
  "getContext s this = containers s ! this"

definition update_registry :: "state \<Rightarrow> ref \<Rightarrow> (registry \<Rightarrow> registry) \<Rightarrow> state" where
  "update_registry s this f =
     s \<lparr> registries :=
           (registries s)[registry_ref (containers s ! this) := f (registry_of s this)] \<rparr>"

text \<open>\<open>register\<close>: \<open>options.singleton ?? true\<close>.\<close>

definition register :: "state \<Rightarrow> ref \<Rightarrow> string \<Rightarrow> string \<Rightarrow> bool option \<Rightarrow> state" where
  "register s this token cls opt_singleton =
     update_registry s this (\<lambda>reg.
       registry_set reg token
         \<lparr> constructor = Class cls,
           singleton = (case opt_singleton of None \<Rightarrow> True | Some b \<Rightarrow> b),
           instance_value = JUndefined \<rparr>)"

definition registerValue :: "state \<Rightarrow> ref \<Rightarrow> string \<Rightarrow> jsval \<Rightarrow> state" where
  "registerValue s this token v =
     update_registry s this (\<lambda>reg.
       registry_set reg token
         \<lparr> constructor = ValueThunk v, singleton = True, instance_value = v \<rparr>)"

text \<open>
  \<open>resolve\<close>. The class constructors are code outside the container; \<open>new C(this)\<close>
  is taken to return a new object and to leave the registry as it is. What the token
  reads decides the rest:
  \<^item> nothing: the \<open>Service not registered\<close> error;
  \<^item> a registration: the two tests on \<open>instance\<close>, then \<open>new\<close>, which is a
    \<open>TypeError\<close> on the arrow function of \<open>registerValue\<close>;
  \<^item> \<open>Object.prototype\<close> itself (the token \<open>__proto__\<close>): it is truthy and has neither
    \<open>singleton\<close> nor \<open>instance\<close>, and its \<open>constructor\<close> is \<open>Object\<close>;
    \<open>new Object(this)\<close> returns its argument;
  \<^item> a function of \<open>Object.prototype\<close>: its \<open>constructor\<close> is \<open>Function\<close>, and
    \<open>new Function(this)\<close> throws, the text of the container not being a function body;
  \<^item> a field of a registration that became the prototype: a function, a boolean or an
    instance, and what follows depends on properties of that value that the container
    does not fix; the outcome \<open>InheritedProperty\<close> marks the end of the model there.
\<close>

definition resolve :: "state \<Rightarrow> ref \<Rightarrow> string \<Rightarrow> error + (jsval \<times> state)" where
  "resolve s this token =
     (case registry_get (registry_of s this) token of
        Absent \<Rightarrow> Inl (ServiceNotRegistered token)
      | Registered r \<Rightarrow>
          (if singleton r \<and> instance_value r \<noteq> JUndefined then Inr (instance_value r, s)
           else if instance_value r \<noteq> JUndefined then Inr (instance_value r, s)
           else
             (case constructor r of
                ValueThunk v \<Rightarrow> Inl NotAConstructor
              | Class cls \<Rightarrow>
                  (let inst = JInstance (length (instances s));
                       s1 = s \<lparr> instances := instances s @ [(cls, this)] \<rparr>
                   in if singleton r
                      then Inr (inst, update_registry s1 this (\<lambda>reg. registry_cache reg token inst))
                      else Inr (inst, s1))))
      | ObjectPrototype \<Rightarrow> Inr (JContainer this, s)
      | BuiltinFunction \<Rightarrow> Inl FunctionConstructorError
      | InheritedField \<Rightarrow> Inl (InheritedProperty token))"

text \<open>\<open>c.withUser(u1).withUser(u2)...\<close>: a chain of derived containers.\<close>

fun withUsers :: "state \<Rightarrow> ref \<Rightarrow> user list \<Rightarrow> state \<times> ref" where
  "withUsers s this [] = (s, this)"
| "withUsers s this (u # us) = (case withUser s this u of (s1, d) \<Rightarrow> withUsers s1 d us)"

section \<open>Concrete inputs\<close>

text \<open>A runtime to evaluate with: a URL starts with \<open>http\<close>, and no string is a number.\<close>

definition sample_runtime :: runtime where
  "sample_runtime =
     \<lparr> is_url = (\<lambda>s. take 4 s = ''http''), string_to_number = (\<lambda>s. None) \<rparr>"

text \<open>The all-defaults result: the tier \<open>development\<close> and nothing else.\<close>

definition default_environment :: environment where
  "default_environment =
     \<lparr> DB = JUndefined, KV = JUndefined, NODE_ENV = Development, DATABASE_URL = None,
       BETTER_AUTH_SECRET = None, BETTER_AUTH_URL = None,
       GITHUB_CLIENT_ID = None, GITHUB_CLIENT_SECRET = None,
       GOOGLE_CLIENT_ID = None, GOOGLE_CLIENT_SECRET = None,
       SMTP_HOST = None, SMTP_PORT = None, SMTP_USER = None, SMTP_PASS = None,
       API_KEY = None, WEBHOOK_SECRET = None, REDIS_URL = None, SENTRY_DSN = None,
       CLOUDFLARE_ACCOUNT_ID = None, CLOUDFLARE_DATABASE_ID = None,
       CLOUDFLARE_D1_TOKEN = None \<rparr>"

text \<open>Two development environments that differ in \<open>DATABASE_URL\<close> only.\<close>

definition env_dev_a :: raw_environment where
  "env_dev_a =
     empty_object \<lparr> raw_NODE_ENV := JStr ''development'',
                    raw_DATABASE_URL := JStr ''file:a.db'' \<rparr>"

definition env_dev_b :: raw_environment where
  "env_dev_b =
     empty_object \<lparr> raw_NODE_ENV := JStr ''development'',
                    raw_DATABASE_URL := JStr ''file:b.db'' \<rparr>"

text \<open>Environments with a five-character auth secret, which the schema rejects.\<close>

definition env_no_tier_short_secret :: raw_environment where
  "env_no_tier_short_secret = empty_object \<lparr> raw_BETTER_AUTH_SECRET := JStr ''short'' \<rparr>"

definition env_dev_short_secret :: raw_environment where
  "env_dev_short_secret =
     empty_object \<lparr> raw_NODE_ENV := JStr ''development'',
                    raw_BETTER_AUTH_SECRET := JStr ''short'' \<rparr>"

definition env_staging_short_secret :: raw_environment where
  "env_staging_short_secret =
     empty_object \<lparr> raw_NODE_ENV := JStr ''staging'',
                    raw_BETTER_AUTH_SECRET := JStr ''short'' \<rparr>"

text \<open>Production environments: no secret, one of 16 characters, one of 32.\<close>

definition env_prod_absent :: raw_environment where
  "env_prod_absent = empty_object \<lparr> raw_NODE_ENV := JStr ''production'' \<rparr>"

definition env_prod_short :: raw_environment where
  "env_prod_short =
     empty_object \<lparr> raw_NODE_ENV := JStr ''production'',
                    raw_BETTER_AUTH_SECRET := JStr ''0123456789abcdef'' \<rparr>"

definition env_prod_ok :: raw_environment where
  "env_prod_ok =
     empty_object \<lparr> raw_NODE_ENV := JStr ''production'',
                    raw_BETTER_AUTH_SECRET := JStr ''0123456789abcdef0123456789abcdef'' \<rparr>"

text \<open>A flag for the tier \<open>development\<close> only, a production configuration, a user.\<close>

definition dev_only_flag :: FeatureFlag where
  "dev_only_flag =
     \<lparr> key = ''dev_tools'', enabled = True, flag_description = None,
       rolloutPercentage = None, userRules = None,
       environments = Some [''development''] \<rparr>"

definition production_config :: AppConfig where
  "production_config = projr (createConfig sample_runtime env_prod_ok)"

definition plain_user :: user where
  "plain_user =
     \<lparr> user_id = ''u1'', user_name = None, user_email = ''ann@example.org'',
       emailVerified = True, role = Some ''user'' \<rparr>"

text \<open>A store with one array of names, and one with an array of numbers.\<close>

definition names :: "string arrays" where
  "names = [[''Ann'', ''bob'', ''ANNA'']]"

definition numbers :: "int arrays" where
  "numbers = [[1, 2, 3]]"

text \<open>
  Relational operators to evaluate with: on keys of one linearly ordered kind (all
  numbers, or all strings), and on keys that are a number or \<open>undefined\<close> (\<open>None\<close>),
  where a comparison with \<open>undefined\<close> is false.
\<close>

definition ordered_keys :: "'v::linorder relational" where
  "ordered_keys = \<lparr> op_gt = (\<lambda>a b. b < a), op_lt = (\<lambda>a b. a < b) \<rparr>"

definition optional_number_keys :: "int option relational" where
  "optional_number_keys =
     \<lparr> op_gt = (\<lambda>a b. case (a, b) of (Some x, Some y) \<Rightarrow> y < x | _ \<Rightarrow> False),
       op_lt = (\<lambda>a b. case (a, b) of (Some x, Some y) \<Rightarrow> x < y | _ \<Rightarrow> False) \<rparr>"

text \<open>A lower-casing to evaluate with: it lowers the letters A to Z.\<close>

definition ascii_lower_char :: "char \<Rightarrow> char" where
  "ascii_lower_char c =
     (let n = (of_char c :: nat) in if 65 \<le> n \<and> n \<le> 90 then char_of (n + 32) else c)"

definition ascii_lower :: "string \<Rightarrow> string" where
  "ascii_lower s = map ascii_lower_char s"

text \<open>
  A new container; the same after \<open>register('userService', UserService)\<close>; and after
  one \<open>resolve('userService')\<close>, which caches the instance. Two users.
\<close>

definition fresh_state :: state where
  "fresh_state = fst (new_Container empty_state empty_object None)"

definition registered_state :: state where
  "registered_state = register fresh_state 0 ''userService'' ''UserService'' None"

definition resolved_state :: state where
  "resolved_state = snd (projr (resolve registered_state 0 ''userService''))"

definition ann :: user where
  "ann = \<lparr> user_id = ''u1'', user_name = Some ''Ann'', user_email = ''ann@example.org'',
           emailVerified = True, role = Some ''admin'' \<rparr>"

definition bob :: user where
  "bob = \<lparr> user_id = ''u2'', user_name = Some ''Bob'', user_email = ''bob@example.org'',
           emailVerified = False, role = None \<rparr>"

section \<open>Properties of the Config Composer\<close>

lemmas z_defs = z_tier_default_def z_string_optional_def z_string_min32_optional_def
  z_string_url_optional_def z_coerce_number_optional_def

lemma parse_empty_object: "EnvironmentSchema_parse rt empty_object = Some default_environment"
  by (simp add: EnvironmentSchema_parse_def empty_object_def default_environment_def z_defs)

lemma parse_NODE_ENV:
  "EnvironmentSchema_parse rt e = Some v \<Longrightarrow>
     z_tier_default (raw_NODE_ENV e) = Some (NODE_ENV v)"
  by (auto simp: EnvironmentSchema_parse_def Option.bind_eq_Some_conv)

lemma parse_secret:
  "EnvironmentSchema_parse rt e = Some v \<Longrightarrow>
     z_string_min32_optional (raw_BETTER_AUTH_SECRET e) = Some (BETTER_AUTH_SECRET v)"
  by (auto simp: EnvironmentSchema_parse_def Option.bind_eq_Some_conv)

lemma parse_short_secret:
  "raw_BETTER_AUTH_SECRET e = JStr s \<Longrightarrow> length s < 32 \<Longrightarrow>
     EnvironmentSchema_parse rt e = None"
  by (simp add: EnvironmentSchema_parse_def z_string_min32_optional_def
      Option.bind_eq_None_conv)

lemma createConfig_Inr:
  "\<not> isl (createConfig rt e) \<Longrightarrow> createConfig rt e = Inr (projr (createConfig rt e))"
  by (cases \<open>createConfig rt e\<close>) simp_all

lemma createConfig_not_production:
  "validateEnvironment rt e = Inr v \<Longrightarrow> NODE_ENV v \<noteq> Production \<Longrightarrow>
     \<not> isl (createConfig rt e)"
  by (simp add: createConfig_def Let_def)

lemma createConfig_groups:
  assumes "validateEnvironment rt e = Inr v" and "createConfig rt e = Inr c"
  shows "rateLimit c = s_rateLimit (getAppSettings (tier_name (NODE_ENV v)))"
    and "logging c = s_logging (getAppSettings (tier_name (NODE_ENV v)))"
    and "security c = s_security (getAppSettings (tier_name (NODE_ENV v)))"
    and "database_settings.truncate (database c) =
           s_database (getAppSettings (tier_name (NODE_ENV v)))"
    and "url (database c) = DATABASE_URL v"
  using assms
  by (auto simp: createConfig_def Let_def database_settings.truncate_def
      split: sum.splits if_splits)

lemma validate_dev_a:
  "validateEnvironment sample_runtime env_dev_a =
     Inr (default_environment \<lparr> DATABASE_URL := Some ''file:a.db'' \<rparr>)"
  by (simp add: validateEnvironment_def EnvironmentSchema_parse_def env_dev_a_def
      empty_object_def default_environment_def z_defs)

lemma validate_dev_b:
  "validateEnvironment sample_runtime env_dev_b =
     Inr (default_environment \<lparr> DATABASE_URL := Some ''file:b.db'' \<rparr>)"
  by (simp add: validateEnvironment_def EnvironmentSchema_parse_def env_dev_b_def
      empty_object_def default_environment_def z_defs)

lemma createConfig_dev_a: "\<not> isl (createConfig sample_runtime env_dev_a)"
  by (rule createConfig_not_production [OF validate_dev_a]) (simp add: default_environment_def)

lemma createConfig_dev_b: "\<not> isl (createConfig sample_runtime env_dev_b)"
  by (rule createConfig_not_production [OF validate_dev_b]) (simp add: default_environment_def)

text \<open>
  C1, as stated, fails: \<open>config.database.url\<close> is copied from \<open>DATABASE_URL\<close> of the
  environment. Two environments of the tier \<open>development\<close> that differ only in that
  variable get different \<open>database\<close> groups.
\<close>

theorem database_url_from_environment:
  "raw_NODE_ENV env_dev_a = raw_NODE_ENV env_dev_b \<and>
   NODE_ENV (projr (validateEnvironment sample_runtime env_dev_a)) = Development \<and>
   NODE_ENV (projr (validateEnvironment sample_runtime env_dev_b)) = Development \<and>
   \<not> isl (createConfig sample_runtime env_dev_a) \<and>
   \<not> isl (createConfig sample_runtime env_dev_b) \<and>
   url (database (projr (createConfig sample_runtime env_dev_a))) = Some ''file:a.db'' \<and>
   url (database (projr (createConfig sample_runtime env_dev_b))) = Some ''file:b.db'' \<and>
   database (projr (createConfig sample_runtime env_dev_a)) \<noteq>
     database (projr (createConfig sample_runtime env_dev_b))"
proof -
  note a = createConfig_dev_a and b = createConfig_dev_b
  have ua: "url (database (projr (createConfig sample_runtime env_dev_a))) = Some ''file:a.db''"
    using createConfig_groups(5) [OF validate_dev_a createConfig_Inr [OF a]]
    by (simp add: default_environment_def)
  have ub: "url (database (projr (createConfig sample_runtime env_dev_b))) = Some ''file:b.db''"
    using createConfig_groups(5) [OF validate_dev_b createConfig_Inr [OF b]]
    by (simp add: default_environment_def)
  have "database (projr (createConfig sample_runtime env_dev_a)) \<noteq>
     database (projr (createConfig sample_runtime env_dev_b))"
    using ua ub by auto
  moreover have "raw_NODE_ENV env_dev_a = raw_NODE_ENV env_dev_b"
    by (simp add: env_dev_a_def env_dev_b_def)
  moreover have "NODE_ENV (projr (validateEnvironment sample_runtime env_dev_a)) = Development"
    "NODE_ENV (projr (validateEnvironment sample_runtime env_dev_b)) = Development"
    by (simp_all add: validate_dev_a validate_dev_b default_environment_def)
  ultimately show ?thesis using a b ua ub by simp
qed

text \<open>
  C1, amended: for two environments that validate to the same tier, the groups
  \<open>rateLimit\<close>, \<open>logging\<close> and \<open>security\<close> of the composed configurations are equal, and
  so are the four limits of the \<open>database\<close> group (\<open>maxConnections\<close>, \<open>queryTimeout\<close>,
  \<open>enableLogging\<close>, \<open>retryAttempts\<close>); each is the corresponding group of the tier's
  bundle. The remaining field \<open>database.url\<close> is the validated \<open>DATABASE_URL\<close> of the
  environment.
\<close>

theorem behavior_groups_from_tier:
  assumes "validateEnvironment rt e1 = Inr v1" and "validateEnvironment rt e2 = Inr v2"
    and "NODE_ENV v1 = NODE_ENV v2"
    and "createConfig rt e1 = Inr c1" and "createConfig rt e2 = Inr c2"
  shows "rateLimit c1 = rateLimit c2 \<and> logging c1 = logging c2 \<and> security c1 = security c2 \<and>
         database_settings.truncate (database c1) = database_settings.truncate (database c2) \<and>
         rateLimit c1 = s_rateLimit (getAppSettings (tier_name (NODE_ENV v1))) \<and>
         logging c1 = s_logging (getAppSettings (tier_name (NODE_ENV v1))) \<and>
         security c1 = s_security (getAppSettings (tier_name (NODE_ENV v1))) \<and>
         database_settings.truncate (database c1) =
           s_database (getAppSettings (tier_name (NODE_ENV v1))) \<and>
         url (database c1) = DATABASE_URL v1 \<and> url (database c2) = DATABASE_URL v2"
  using createConfig_groups [OF assms(1) assms(4)] createConfig_groups [OF assms(2) assms(5)]
    assms(3)
  by simp

theorem behavior_groups_from_tier_witness:
  "rateLimit (projr (createConfig sample_runtime env_dev_a)) =
     rateLimit (projr (createConfig sample_runtime env_dev_b)) \<and>
   rateLimit (projr (createConfig sample_runtime env_dev_a)) = s_rateLimit developmentSettings \<and>
   database_settings.truncate (database (projr (createConfig sample_runtime env_dev_a))) =
     s_database developmentSettings \<and>
   url (database (projr (createConfig sample_runtime env_dev_a))) = Some ''file:a.db''"
proof -
  have t: "NODE_ENV (default_environment \<lparr> DATABASE_URL := Some ''file:a.db'' \<rparr>) =
           NODE_ENV (default_environment \<lparr> DATABASE_URL := Some ''file:b.db'' \<rparr>)"
    by simp
  have s: "getAppSettings (tier_name (NODE_ENV
             (default_environment \<lparr> DATABASE_URL := Some ''file:a.db'' \<rparr>))) =
           developmentSettings"
    by (simp add: default_environment_def getAppSettings_def)
  have u: "DATABASE_URL (default_environment \<lparr> DATABASE_URL := Some ''file:a.db'' \<rparr>) =
           Some ''file:a.db''"
    by simp
  note th = behavior_groups_from_tier [OF validate_dev_a validate_dev_b t
        createConfig_Inr [OF createConfig_dev_a] createConfig_Inr [OF createConfig_dev_b],
        unfolded s u]
  show ?thesis
    by (intro conjI) (use th in blast)+
qed

lemma validateEnvironment_failure:
  assumes "EnvironmentSchema_parse rt e = None"
  shows "validateEnvironment rt e =
           (if raw_NODE_ENV e = JStr ''development'' then Inr default_environment
            else Inl EnvironmentValidationFailed)"
  using assms by (simp add: validateEnvironment_def parse_empty_object)

lemma validateEnvironment_empty: "validateEnvironment rt empty_object = Inr default_environment"
  by (simp add: validateEnvironment_def parse_empty_object)

lemma createConfig_cong:
  "validateEnvironment rt e1 = validateEnvironment rt e2 \<Longrightarrow> createConfig rt e1 = createConfig rt e2"
  by (simp add: createConfig_def)

text \<open>
  C3, as stated, fails where the tier field is absent. The schema gives such an
  environment the tier \<open>development\<close> by default, but when validation fails nothing has
  been parsed, and the \<open>catch\<close> branch tests the field as it was handed in, which is
  \<open>undefined\<close>: the failure is thrown.
\<close>

theorem absent_tier_validation_failure_throws:
  "raw_NODE_ENV env_no_tier_short_secret = JUndefined \<and>
   z_tier_default (raw_NODE_ENV env_no_tier_short_secret) = Some Development \<and>
   EnvironmentSchema_parse sample_runtime env_no_tier_short_secret = None \<and>
   validateEnvironment sample_runtime env_no_tier_short_secret = Inl EnvironmentValidationFailed \<and>
   createConfig sample_runtime env_no_tier_short_secret = Inl EnvironmentValidationFailed"
proof -
  have n: "raw_NODE_ENV env_no_tier_short_secret = JUndefined"
    by (simp add: env_no_tier_short_secret_def empty_object_def)
  have s: "raw_BETTER_AUTH_SECRET env_no_tier_short_secret = JStr ''short''"
    by (simp add: env_no_tier_short_secret_def)
  have p: "EnvironmentSchema_parse sample_runtime env_no_tier_short_secret = None"
    by (rule parse_short_secret [OF s]) simp
  have v: "validateEnvironment sample_runtime env_no_tier_short_secret = Inl EnvironmentValidationFailed"
    by (simp add: validateEnvironment_failure [OF p] n)
  show ?thesis
    using n p v by (simp add: createConfig_def z_tier_default_def)
qed

text \<open>
  C3, amended: when an environment fails schema validation and its \<open>NODE_ENV\<close> field
  is the string \<open>development\<close>, \<open>validateEnvironment\<close> returns the all-defaults result
  and \<open>createConfig\<close> returns the configuration of the empty environment, of tier
  \<open>development\<close>; when the field is \<open>staging\<close> or \<open>production\<close>, both throw the
  validation error.
\<close>

theorem validation_failure_by_raw_tier:
  assumes "EnvironmentSchema_parse rt e = None"
  shows "(raw_NODE_ENV e = JStr ''development'' \<longrightarrow>
            validateEnvironment rt e = Inr default_environment \<and>
            createConfig rt e = createConfig rt empty_object \<and>
            \<not> isl (createConfig rt e) \<and>
            environment (app (projr (createConfig rt e))) = Development) \<and>
         (raw_NODE_ENV e = JStr ''staging'' \<or> raw_NODE_ENV e = JStr ''production'' \<longrightarrow>
            validateEnvironment rt e = Inl EnvironmentValidationFailed \<and>
            createConfig rt e = Inl EnvironmentValidationFailed)"
proof (intro conjI impI)
  assume d: "raw_NODE_ENV e = JStr ''development''"
  show v: "validateEnvironment rt e = Inr default_environment"
    by (simp add: validateEnvironment_failure [OF assms] d)
  show "createConfig rt e = createConfig rt empty_object"
    by (rule createConfig_cong) (simp add: v validateEnvironment_empty)
  show n: "\<not> isl (createConfig rt e)"
    by (rule createConfig_not_production [OF v]) (simp add: default_environment_def)
  show "environment (app (projr (createConfig rt e))) = Development"
    by (simp add: createConfig_def v default_environment_def getAppSettings_def developmentSettings_def)
next
  assume o: "raw_NODE_ENV e = JStr ''staging'' \<or> raw_NODE_ENV e = JStr ''production''"
  show v: "validateEnvironment rt e = Inl EnvironmentValidationFailed"
    using o by (auto simp: validateEnvironment_failure [OF assms])
  show "createConfig rt e = Inl EnvironmentValidationFailed"
    by (simp add: createConfig_def v)
qed

theorem validation_failure_by_raw_tier_witness:
  "validateEnvironment sample_runtime env_dev_short_secret = Inr default_environment \<and>
   \<not> isl (createConfig sample_runtime env_dev_short_secret) \<and>
   createConfig sample_runtime env_staging_short_secret = Inl EnvironmentValidationFailed \<and>
   createConfig sample_runtime env_prod_short = Inl EnvironmentValidationFailed"
proof -
  have pd: "EnvironmentSchema_parse sample_runtime env_dev_short_secret = None"
    by (rule parse_short_secret [of _ "''short''"]) (simp_all add: env_dev_short_secret_def)
  have ps: "EnvironmentSchema_parse sample_runtime env_staging_short_secret = None"
    by (rule parse_short_secret [of _ "''short''"]) (simp_all add: env_staging_short_secret_def)
  have pp: "EnvironmentSchema_parse sample_runtime env_prod_short = None"
    by (rule parse_short_secret [of _ "''0123456789abcdef''"]) (simp_all add: env_prod_short_def)
  have nd: "raw_NODE_ENV env_dev_short_secret = JStr ''development''"
    by (simp add: env_dev_short_secret_def)
  have ns: "raw_NODE_ENV env_staging_short_secret = JStr ''staging''"
    by (simp add: env_staging_short_secret_def)
  have np: "raw_NODE_ENV env_prod_short = JStr ''production''"
    by (simp add: env_prod_short_def)
  show ?thesis
    using validation_failure_by_raw_tier [OF pd] validation_failure_by_raw_tier [OF ps]
      validation_failure_by_raw_tier [OF pp] nd ns np
    by blast
qed

section \<open>Properties of the production check\<close>

text \<open>
  C9: in the tier \<open>production\<close>, \<open>createConfig\<close> throws when \<open>BETTER_AUTH_SECRET\<close>
  is absent (the production check's error when the rest of the environment is valid) and
  when it is a string shorter than 32 characters (the schema's \<open>min(32)\<close> fails); with a
  secret of at least 32 characters in an environment that passes the schema it returns a
  configuration.
\<close>

theorem production_auth_secret:
  assumes "raw_NODE_ENV e = JStr ''production''"
  shows "(raw_BETTER_AUTH_SECRET e = JUndefined \<longrightarrow>
            createConfig rt e = Inl AuthSecretRequired \<or>
            createConfig rt e = Inl EnvironmentValidationFailed) \<and>
         (raw_BETTER_AUTH_SECRET e = JUndefined \<and> EnvironmentSchema_parse rt e \<noteq> None \<longrightarrow>
            createConfig rt e = Inl AuthSecretRequired) \<and>
         ((\<exists>s. raw_BETTER_AUTH_SECRET e = JStr s \<and> length s < 32) \<longrightarrow>
            createConfig rt e = Inl EnvironmentValidationFailed) \<and>
         ((\<exists>s. raw_BETTER_AUTH_SECRET e = JStr s \<and> 32 \<le> length s) \<and>
          EnvironmentSchema_parse rt e \<noteq> None \<longrightarrow>
            \<not> isl (createConfig rt e))"
proof -
  have invalid: "createConfig rt e = Inl EnvironmentValidationFailed"
    if "EnvironmentSchema_parse rt e = None"
    using that assms by (simp add: createConfig_def validateEnvironment_failure)
  have valid1: "createConfig rt e =
      (case validateProductionEnvironment v of Inl e \<Rightarrow> Inl e
       | Inr u \<Rightarrow> Inr (projr (createConfig rt e)))" and valid2: "NODE_ENV v = Production"
    and valid3: "z_string_min32_optional (raw_BETTER_AUTH_SECRET e) = Some (BETTER_AUTH_SECRET v)"
    if "EnvironmentSchema_parse rt e = Some v" for v
  proof -
    show p: "NODE_ENV v = Production"
      using parse_NODE_ENV [OF that] assms by (simp add: z_tier_default_def)
    show "createConfig rt e =
      (case validateProductionEnvironment v of Inl e \<Rightarrow> Inl e
       | Inr u \<Rightarrow> Inr (projr (createConfig rt e)))"
      using that p by (simp add: createConfig_def validateEnvironment_def Let_def split: sum.splits)
    show "z_string_min32_optional (raw_BETTER_AUTH_SECRET e) = Some (BETTER_AUTH_SECRET v)"
      by (rule parse_secret [OF that])
  qed
  have absent: "createConfig rt e = Inl AuthSecretRequired"
    if "raw_BETTER_AUTH_SECRET e = JUndefined" "EnvironmentSchema_parse rt e \<noteq> None"
  proof -
    from that(2) obtain v where v: "EnvironmentSchema_parse rt e = Some v" by auto
    have "BETTER_AUTH_SECRET v = None"
      using valid3 [OF v] that(1) by (simp add: z_string_min32_optional_def)
    then show ?thesis
      using valid1 [OF v] valid2 [OF v] by (simp add: validateProductionEnvironment_def)
  qed
  have long: "\<not> isl (createConfig rt e)"
    if "raw_BETTER_AUTH_SECRET e = JStr s" "32 \<le> length s" "EnvironmentSchema_parse rt e \<noteq> None"
    for s
  proof -
    from that(3) obtain v where v: "EnvironmentSchema_parse rt e = Some v" by auto
    have "BETTER_AUTH_SECRET v = Some s"
      using valid3 [OF v] that(1,2) by (simp add: z_string_min32_optional_def)
    then have "validateProductionEnvironment v = Inr ()"
      using valid2 [OF v] that(2) by (auto simp: validateProductionEnvironment_def)
    then have "createConfig rt e = Inr (projr (createConfig rt e))"
      using valid1 [OF v] by simp
    then show ?thesis
      by (metis sum.disc(2))
  qed
  show ?thesis
    using invalid absent long parse_short_secret [of e _ rt]
    by (cases "EnvironmentSchema_parse rt e") auto
qed


lemma parse_prod_absent: "EnvironmentSchema_parse sample_runtime env_prod_absent \<noteq> None"
  by (simp add: EnvironmentSchema_parse_def env_prod_absent_def empty_object_def z_defs)

lemma parse_prod_ok: "EnvironmentSchema_parse sample_runtime env_prod_ok \<noteq> None"
  by (simp add: EnvironmentSchema_parse_def env_prod_ok_def empty_object_def z_defs)

theorem production_auth_secret_witness:
  "createConfig sample_runtime env_prod_absent = Inl AuthSecretRequired \<and>
   createConfig sample_runtime env_prod_short = Inl EnvironmentValidationFailed \<and>
   \<not> isl (createConfig sample_runtime env_prod_ok)"
proof -
  have na: "raw_NODE_ENV env_prod_absent = JStr ''production''"
    and sa: "raw_BETTER_AUTH_SECRET env_prod_absent = JUndefined"
    by (simp_all add: env_prod_absent_def empty_object_def)
  have ns: "raw_NODE_ENV env_prod_short = JStr ''production''"
    and ss: "\<exists>s. raw_BETTER_AUTH_SECRET env_prod_short = JStr s \<and> length s < 32"
    by (simp_all add: env_prod_short_def)
  have no: "raw_NODE_ENV env_prod_ok = JStr ''production''"
    and so: "\<exists>s. raw_BETTER_AUTH_SECRET env_prod_ok = JStr s \<and> 32 \<le> length s"
    by (simp_all add: env_prod_ok_def)
  show ?thesis
    using production_auth_secret [OF na, of sample_runtime]
      production_auth_secret [OF ns, of sample_runtime]
      production_auth_secret [OF no, of sample_runtime]
      sa ss so parse_prod_absent parse_prod_ok
    by blast
qed

section \<open>Properties of the Feature Flag Evaluator\<close>

lemma validate_prod_ok:
  "validateEnvironment sample_runtime env_prod_ok =
     Inr (default_environment \<lparr> NODE_ENV := Production,
            BETTER_AUTH_SECRET := Some ''0123456789abcdef0123456789abcdef'' \<rparr>)"
  by (simp add: validateEnvironment_def EnvironmentSchema_parse_def env_prod_ok_def
      empty_object_def default_environment_def z_defs)

lemma production_config_tier: "environment (app production_config) = Production"
  by (simp add: production_config_def createConfig_def validate_prod_ok Let_def
      default_environment_def validateProductionEnvironment_def getAppSettings_def
      productionSettings_def)

text \<open>
  C2 does not hold of the code. The evaluator of a production configuration is asked
  for a flag that is enabled and restricted to \<open>development\<close>: the running tier,
  \<open>production\<close>, is not in the flag's list, and \<open>isEnabled\<close> returns true, with and
  without a user, because the list is compared with the constant \<open>'development'\<close>.
\<close>

theorem isEnabled_ignores_running_tier:
  "environment (app production_config) = Production \<and>
   environments dev_only_flag = Some [''development''] \<and>
   tier_name (environment (app production_config)) \<notin> set [''development''] \<and>
   enabled dev_only_flag \<and>
   isEnabled (new_FeatureFlags production_config [dev_only_flag]) ''dev_tools'' None \<and>
   isEnabled (new_FeatureFlags production_config [dev_only_flag]) ''dev_tools'' (Some plain_user)"
  by (simp add: production_config_tier isEnabled_def new_FeatureFlags_def loadFlags_def
      dev_only_flag_def)

text \<open>
  C10: a flag that is enabled, has user rules, no environment restriction (none, or an
  empty list) and no rollout percentage is enabled for every caller: for a user who
  matches a rule, for one who matches none, and without a user. A rule can only turn a
  decision to true; when none does, the last line returns \<open>flag.enabled\<close>.
\<close>

theorem isEnabled_rules_only_widen:
  assumes "map_of (flags ff) k = Some flag"
    and "enabled flag"
    and "userRules flag = Some rules" and "rules \<noteq> []"
    and "environments flag = None \<or> environments flag = Some []"
    and "rolloutPercentage flag = None"
  shows "isEnabled ff k u"
proof (cases u)
  case None
  then show ?thesis using assms by (auto simp: isEnabled_def)
next
  case (Some usr)
  have "evaluateUserRules rules usr = None \<or> evaluateUserRules rules usr = Some True"
    by (induction rules) auto
  then show ?thesis using assms Some by (auto simp: isEnabled_def)
qed

lemma default_admin_panel:
  "map_of (flags (createFeatureFlags c)) ''admin_panel'' =
     Some \<lparr> key = ''admin_panel'', enabled = True,
         flag_description = Some ''Enable admin panel access'',
         rolloutPercentage = None,
         userRules = Some [ \<lparr> rule_type = Role, operator = Equals,
                               rule_value = Single ''admin'' \<rparr> ],
         environments = None \<rparr>"
  by (simp add: createFeatureFlags_def new_FeatureFlags_def loadFlags_def
      createDefaultFeatureFlags_def)

theorem isEnabled_rules_only_widen_witness:
  "evaluateUserRules [\<lparr> rule_type = Role, operator = Equals, rule_value = Single ''admin'' \<rparr>]
     plain_user = None \<and>
   isEnabled (createFeatureFlags production_config) ''admin_panel'' (Some plain_user) \<and>
   isEnabled (createFeatureFlags production_config) ''admin_panel'' None"
proof -
  have "evaluateUserRules
     [\<lparr> rule_type = Role, operator = Equals, rule_value = Single ''admin'' \<rparr>] plain_user = None"
    by (simp add: matchesUserRule_def matchesValue_def plain_user_def)
  moreover have "isEnabled (createFeatureFlags production_config) ''admin_panel'' u" for u
    using isEnabled_rules_only_widen [OF default_admin_panel,
        of "[\<lparr> rule_type = Role, operator = Equals, rule_value = Single ''admin'' \<rparr>]"
           production_config u]
    by simp
  ultimately show ?thesis by simp
qed

section \<open>Properties of the Base Service helpers\<close>

text \<open>The sort rearranges: the sorted list has the elements of the input.\<close>

lemma mset_insert_sorted: "mset (insert_sorted cmp x ys) = add_mset x (mset ys)"
  by (induction ys) auto

lemma mset_js_sort: "mset (js_sort cmp xs) = mset xs"
  by (induction xs) (auto simp: js_sort_def mset_insert_sorted)

lemma set_insert_sorted: "set (insert_sorted cmp x ys) = insert x (set ys)"
  by (induction ys) auto

text \<open>
  Where the two operators are a linear order on the keys, the comparator is at most zero
  exactly when the keys are in the order asked for, insertion keeps a sorted list sorted,
  and the array ends up ordered by the key.
\<close>

lemma sort_compare_le:
  "sort_compare ordered_keys f ord x y \<le> 0 \<longleftrightarrow>
     (if ord = Asc then f x \<le> f y else f y \<le> f x)"
  by (auto simp: sort_compare_def ordered_keys_def Let_def)

lemma sorted_insert_sorted:
  fixes f :: "'u \<Rightarrow> 'v::linorder"
  assumes "sorted_wrt (\<lambda>a b. if ord = Asc then f a \<le> f b else f b \<le> f a) ys"
  shows "sorted_wrt (\<lambda>a b. if ord = Asc then f a \<le> f b else f b \<le> f a)
           (insert_sorted (sort_compare ordered_keys f ord) x ys)"
  using assms
proof (induction ys)
  case Nil
  then show ?case by simp
next
  case (Cons y ys)
  show ?case
  proof (cases "sort_compare ordered_keys f ord x y \<le> 0")
    case True
    then show ?thesis
      using Cons.prems by (cases ord) (auto simp: sort_compare_le)
  next
    case False
    then show ?thesis
      using Cons by (cases ord) (auto simp: sort_compare_le set_insert_sorted)
  qed
qed

lemma sorted_js_sort:
  fixes f :: "'u \<Rightarrow> 'v::linorder"
  shows "sorted_wrt (\<lambda>a b. if ord = Asc then f a \<le> f b else f b \<le> f a)
           (js_sort (sort_compare ordered_keys f ord) xs)"
proof (induction xs)
  case Nil
  then show ?case by (simp add: js_sort_def)
next
  case (Cons x xs)
  then show ?case
    using sorted_insert_sorted [of ord f "js_sort (sort_compare ordered_keys f ord) xs" x]
    by (simp add: js_sort_def)
qed

text \<open>
  Where a key is \<open>undefined\<close> the comparator is 0 against every other key, and the array
  need not end up ordered: the keys 3, \<open>undefined\<close>, 1 stay as they are.
\<close>

lemma js_sort_undefined_key:
  "js_sort (sort_compare optional_number_keys (\<lambda>k. k) Asc) [Some 3, None, Some 1] =
     [Some 3, None, Some 1]"
  by (simp add: js_sort_def sort_compare_def optional_number_keys_def)

text \<open>
  C4, as stated, fails for \<open>applySorting\<close>: \<open>items.sort(...)\<close> reorders the array it
  is called on. After sorting the caller's array \<open>[1, 2, 3]\<close> in descending order, that
  same array holds \<open>[3, 2, 1]\<close>, and the helper returns it.
\<close>

theorem applySorting_sorts_input_in_place:
  "fst (applySorting ordered_keys numbers 0 (\<lambda>n. n) Desc) ! 0 = [3, 2, 1] \<and>
   snd (applySorting ordered_keys numbers 0 (\<lambda>n. n) Desc) = 0 \<and>
   numbers ! 0 = [1, 2, 3] \<and>
   fst (applySorting ordered_keys numbers 0 (\<lambda>n. n) Desc) ! 0 \<noteq> numbers ! 0"
  by (simp add: applySorting_def numbers_def js_sort_def sort_compare_def ordered_keys_def)

text \<open>
  C4, amended: \<open>applyPagination\<close> and \<open>applyTextSearch\<close> leave every array of the
  store, the input among them, as it was; the page is a new array holding the slice, the
  search result is a new array holding the matching elements, or the input array itself
  when the term is empty. \<open>applySorting\<close> returns the input array itself, which
  afterwards holds a rearrangement of the elements it held before; no other array
  changes. This holds for any relational operators on the keys and any lower-casing.
\<close>

theorem list_helpers_frame:
  assumes "items < length h"
  shows "(case applyPagination h items opts of
            (h', res) \<Rightarrow>
              take (length h) h' = h \<and> h' ! items = h ! items \<and>
              data res = length h \<and> length h' = Suc (length h) \<and>
              h' ! data res =
                js_slice (h ! items) ((opt_page opts - 1) * opt_limit opts)
                  ((opt_page opts - 1) * opt_limit opts + opt_limit opts)) \<and>
         (case applyTextSearch lc h items q searchFields of
            (h', r) \<Rightarrow>
              take (length h) h' = h \<and> h' ! items = h ! items \<and>
              (if q = [] then h' = h \<and> r = items
               else r = length h \<and> length h' = Suc (length h) \<and>
                    h' ! r = filter (\<lambda>item. list_ex (\<lambda>field.
                               sublist (lc q) (lc (field item))) searchFields)
                             (h ! items))) \<and>
         (case applySorting ops h items sortBy ord of
            (h', r) \<Rightarrow>
              r = items \<and> h' = h[items := h' ! items] \<and>
              mset (h' ! items) = mset (h ! items))"
  using assms
  by (auto simp: applyPagination_def applyTextSearch_def applySorting_def Let_def nth_append
      mset_js_sort)

theorem list_helpers_frame_witness:
  "fst (applyPagination names 0 \<lparr> opt_page = 2, opt_limit = 2 \<rparr>) ! 0 = names ! 0 \<and>
   fst (applyPagination names 0 \<lparr> opt_page = 2, opt_limit = 2 \<rparr>) ! 1 = [''ANNA''] \<and>
   fst (applyTextSearch ascii_lower names 0 ''an'' [\<lambda>s. s]) ! 0 = names ! 0 \<and>
   fst (applyTextSearch ascii_lower names 0 ''an'' [\<lambda>s. s]) ! 1 = [''Ann'', ''ANNA''] \<and>
   snd (applySorting ordered_keys names 0 length Desc) = 0 \<and>
   mset (fst (applySorting ordered_keys names 0 length Desc) ! 0) = mset (names ! 0) \<and>
   fst (applySorting ordered_keys names 0 length Desc) ! 0 = [''ANNA'', ''Ann'', ''bob'']"
proof -
  have l: "0 < length names" by (simp add: names_def)
  note th = list_helpers_frame [OF l, where opts = "\<lparr> opt_page = 2, opt_limit = 2 \<rparr>"
      and lc = ascii_lower and q = "''an''" and searchFields = "[\<lambda>s. s]"
      and ops = ordered_keys and sortBy = length and ord = Desc]
  have p: "fst (applyPagination names 0 \<lparr> opt_page = 2, opt_limit = 2 \<rparr>) ! 0 = names ! 0"
    using th by (auto split: prod.splits)
  have t: "fst (applyTextSearch ascii_lower names 0 ''an'' [\<lambda>s. s]) ! 0 = names ! 0"
    using th by (auto split: prod.splits)
  have m: "snd (applySorting ordered_keys names 0 length Desc) = 0 \<and>
           mset (fst (applySorting ordered_keys names 0 length Desc) ! 0) = mset (names ! 0)"
    using th by (auto split: prod.splits)
  have p1: "fst (applyPagination names 0 \<lparr> opt_page = 2, opt_limit = 2 \<rparr>) ! 1 = [''ANNA'']"
    by (simp add: applyPagination_def names_def js_slice_def Let_def)
  have t1: "fst (applyTextSearch ascii_lower names 0 ''an'' [\<lambda>s. s]) ! 1 = [''Ann'', ''ANNA'']"
    by code_simp
  have s: "fst (applySorting ordered_keys names 0 length Desc) ! 0 = [''ANNA'', ''Ann'', ''bob'']"
    by (simp add: applySorting_def names_def js_sort_def sort_compare_def ordered_keys_def)
  show ?thesis using p t m p1 t1 s by blast
qed

section \<open>Properties of the Service Container\<close>

lemma registry_get_set: "registry_get (registry_set reg token r) token = Registered r"
  by (simp add: registry_get_def registry_set_def update_conv')

lemma registry_of_update:
  "valid_container s this \<Longrightarrow> registry_of (update_registry s this f) this = f (registry_of s this)"
  by (simp add: valid_container_def registry_of_def update_registry_def)

lemma valid_update [simp]:
  "valid_container (update_registry s this f) c = valid_container s c"
  by (simp add: valid_container_def update_registry_def)

lemma containers_update [simp]: "containers (update_registry s this f) = containers s"
  by (simp add: update_registry_def)

lemma instances_update [simp]: "instances (update_registry s this f) = instances s"
  by (simp add: update_registry_def)

lemma resolve_absent:
  "registry_get (registry_of s this) token = Absent \<Longrightarrow>
     resolve s this token = Inl (ServiceNotRegistered token)"
  by (simp add: resolve_def)

lemma resolve_cached:
  "registry_get (registry_of s this) token = Registered r \<Longrightarrow> instance_value r \<noteq> JUndefined \<Longrightarrow>
     resolve s this token = Inr (instance_value r, s)"
  by (simp add: resolve_def)

lemma map_of_cache:
  "map_of (map (\<lambda>(k, r). if k = token then (k, r \<lparr> instance_value := inst \<rparr>)
                           else (k, r)) al) token
     = map_option (\<lambda>r. r \<lparr> instance_value := inst \<rparr>) (map_of al token)"
  by (induction al) auto

lemma registry_get_cache:
  assumes g: "registry_get reg token = Registered r"
  shows "registry_get (registry_cache reg token inst) token =
           Registered (r \<lparr> instance_value := inst \<rparr>)"
proof (cases "token = ''__proto__''")
  case True
  then show ?thesis
    using g by (auto simp: registry_get_def registry_cache_def split: option.splits)
next
  case False
  have m: "map_of (own reg) token = Some r"
    using g False by (auto simp: registry_get_def split: option.splits if_splits)
  have "map_of (own (registry_cache reg token inst)) token =
          Some (r \<lparr> instance_value := inst \<rparr>)"
    using False m by (simp add: registry_cache_def map_of_cache)
  then show ?thesis
    using False by (simp add: registry_get_def)
qed

text \<open>
  After \<open>register\<close> with the default flag, the first \<open>resolve\<close> builds an object from
  the class and the resolving container and caches it, and the next one returns the same
  object. With \<open>singleton: false\<close> each \<open>resolve\<close> builds another object.
\<close>

lemma resolve_after_register_singleton:
  assumes "valid_container s this"
    and "s1 = register s this token cls None"
    and "s2 = update_registry (s1 \<lparr> instances := instances s1 @ [(cls, this)] \<rparr>) this
                (\<lambda>reg. registry_cache reg token (JInstance (length (instances s))))"
  shows "resolve s1 this token = Inr (JInstance (length (instances s)), s2) \<and>
         resolve s2 this token = Inr (JInstance (length (instances s)), s2) \<and>
         instances s2 = instances s @ [(cls, this)]"
proof -
  let ?r = "\<lparr> constructor = Class cls, singleton = True, instance_value = JUndefined \<rparr>"
  have v1: "valid_container s1 this" using assms by (simp add: register_def)
  have g1: "registry_get (registry_of s1 this) token = Registered ?r"
    using assms(1) by (simp add: assms(2) register_def registry_of_update registry_get_set)
  have i1: "instances s1 = instances s" by (simp add: assms(2) register_def)
  have r1: "resolve s1 this token = Inr (JInstance (length (instances s)), s2)"
    using g1 by (simp add: resolve_def Let_def i1 assms(3))
  have v1': "valid_container (s1 \<lparr> instances := instances s1 @ [(cls, this)] \<rparr>) this"
    using v1 by (simp add: valid_container_def)
  have ro: "registry_of (s1 \<lparr> instances := instances s1 @ [(cls, this)] \<rparr>) this = registry_of s1 this"
    by (simp add: registry_of_def)
  have g2: "registry_get (registry_of s2 this) token =
              Registered (?r \<lparr> instance_value := JInstance (length (instances s)) \<rparr>)"
    unfolding assms(3) registry_of_update [OF v1'] ro
    by (rule registry_get_cache [OF g1])
  have r2: "resolve s2 this token = Inr (JInstance (length (instances s)), s2)"
    using resolve_cached [OF g2] by simp
  show ?thesis using r1 r2 by (simp add: assms(3) i1)
qed

lemma resolve_after_register_transient:
  assumes "valid_container s this"
    and "s1 = register s this token cls (Some False)"
    and "s2 = s1 \<lparr> instances := instances s1 @ [(cls, this)] \<rparr>"
    and "s3 = s2 \<lparr> instances := instances s2 @ [(cls, this)] \<rparr>"
  shows "resolve s1 this token = Inr (JInstance (length (instances s)), s2) \<and>
         resolve s2 this token = Inr (JInstance (Suc (length (instances s))), s3)"
proof -
  let ?r = "\<lparr> constructor = Class cls, singleton = False, instance_value = JUndefined \<rparr>"
  have g1: "registry_get (registry_of s1 this) token = Registered ?r"
    using assms(1) by (simp add: assms(2) register_def registry_of_update registry_get_set)
  have i1: "instances s1 = instances s" by (simp add: assms(2) register_def)
  have g2: "registry_get (registry_of s2 this) token = Registered ?r"
    using g1 by (simp add: assms(3) registry_of_def)
  show ?thesis
    using g1 g2 by (simp add: resolve_def Let_def i1 assms(3,4))
qed


text \<open>
  \<open>withUser\<close> appends one container, which refers to the registry of \<open>this\<close>, and
  leaves every container and registry that was there as it is.
\<close>

lemma withUser_result:
  assumes "valid_container s this" and "withUser s this u = (s', d)"
  shows "d = length (containers s)"
    and "containers s' =
           containers s @ [\<lparr> registry_ref = registry_ref (containers s ! this),
                               env = env (containers s ! this), user = Some u \<rparr>]"
    and "registries s' = registries s @ [\<lparr> own = [], proto = None \<rparr>]"
    and "instances s' = instances s"
  using assms
  by (auto simp: withUser_def new_Container_def valid_container_def nth_append)

lemma withUser_keeps:
  assumes "valid_container s this" and "withUser s this u = (s', d)"
    and "valid_container s c"
  shows "valid_container s' c" and "registry_of s' c = registry_of s c"
    and "getContext s' c = getContext s c"
  using assms(3) withUser_result [OF assms(1,2)]
  by (auto simp: valid_container_def registry_of_def getContext_def nth_append)

lemma withUser_derived:
  assumes "valid_container s this" and "withUser s this u = (s', d)"
  shows "valid_container s' d" and "registry_of s' d = registry_of s this"
    and "registry_ref (containers s' ! d) = registry_ref (containers s' ! this)"
    and "user (getContext s' d) = Some u" and "d \<noteq> this"
  using assms(1) withUser_result [OF assms]
  by (auto simp: valid_container_def registry_of_def getContext_def nth_append)

text \<open>
  C5, as stated, fails: nothing keeps a registered token from being registered again.
  In a container where \<open>userService\<close> is registered and its instance is cached,
  \<open>register\<close> on the same token replaces the registration by the new class and flag
  with no instance, and \<open>registerValue\<close> replaces it by the value.
\<close>

theorem register_replaces_registration:
  "registry_get (registry_of resolved_state 0) ''userService'' =
     Registered \<lparr> constructor = Class ''UserService'', singleton = True,
                  instance_value = JInstance 0 \<rparr> \<and>
   registry_get (registry_of (register resolved_state 0 ''userService'' ''OtherService''
                                (Some False)) 0) ''userService'' =
     Registered \<lparr> constructor = Class ''OtherService'', singleton = False,
                  instance_value = JUndefined \<rparr> \<and>
   registry_get (registry_of (registerValue resolved_state 0 ''userService'' (JNum 7)) 0)
       ''userService'' =
     Registered \<lparr> constructor = ValueThunk (JNum 7), singleton = True,
                  instance_value = JNum 7 \<rparr>"
  by code_simp

text \<open>
  C5, amended: \<open>register\<close> and \<open>registerValue\<close> store the new registration under the
  token whatever was registered there before (the last call wins, and a cached instance
  is dropped with the registration it belonged to); and a \<open>resolve\<close> whose lookup
  of the token finds nothing is the \<open>Service not registered\<close> error.
\<close>

theorem register_overwrites:
  assumes "valid_container s this"
  shows "registry_get (registry_of (register s this token cls opt) this) token =
           Registered \<lparr> constructor = Class cls,
                        singleton = (case opt of None \<Rightarrow> True | Some b \<Rightarrow> b),
                        instance_value = JUndefined \<rparr> \<and>
         registry_get (registry_of (registerValue s this token v) this) token =
           Registered \<lparr> constructor = ValueThunk v, singleton = True, instance_value = v \<rparr> \<and>
         (registry_get (registry_of s this) token = Absent \<longrightarrow>
            resolve s this token = Inl (ServiceNotRegistered token))"
  using assms
  by (simp add: register_def registerValue_def registry_of_update registry_get_set
      resolve_absent)

lemma fresh_valid: "valid_container fresh_state 0"
  by (simp add: fresh_state_def new_Container_def empty_state_def valid_container_def)

lemma resolved_valid: "valid_container resolved_state 0"
  by code_simp

theorem register_overwrites_witness:
  "registry_get (registry_of (register resolved_state 0 ''userService'' ''OtherService''
                                (Some False)) 0) ''userService'' =
     Registered \<lparr> constructor = Class ''OtherService'', singleton = False,
                  instance_value = JUndefined \<rparr> \<and>
   registry_get (registry_of fresh_state 0) ''userService'' = Absent \<and>
   resolve fresh_state 0 ''userService'' = Inl (ServiceNotRegistered ''userService'')"
proof -
  have a: "registry_get (registry_of fresh_state 0) ''userService'' = Absent"
    by code_simp
  show ?thesis
    using register_overwrites [OF resolved_valid, of "''userService''" "''OtherService''"
        "Some False"] register_overwrites [OF fresh_valid, of "''userService''"] a
    by simp
qed

text \<open>
  C6 does not hold of the code for a token that names a property every object inherits.
  In a new container, where nothing is registered, \<open>resolve('__proto__')\<close> does not
  throw: it returns the container itself and changes nothing; \<open>resolve('constructor')\<close>
  and \<open>resolve('toString')\<close> throw, but from \<open>new Function(...)\<close>, not the
  \<open>Service not registered\<close> error.
\<close>

theorem resolve_inherited_name:
  "own (registry_of fresh_state 0) = [] \<and>
   registry_get (registry_of fresh_state 0) ''__proto__'' = ObjectPrototype \<and>
   resolve fresh_state 0 ''__proto__'' = Inr (JContainer 0, fresh_state) \<and>
   resolve fresh_state 0 ''constructor'' = Inl FunctionConstructorError \<and>
   resolve fresh_state 0 ''toString'' = Inl FunctionConstructorError"
  by code_simp

text \<open>
  C7: \<open>withUser(u)\<close> returns a container \<open>d\<close> other than \<open>this\<close> that refers to the
  same registry object, so that a registration made through \<open>d\<close> afterwards is read by
  both; its context's user is \<open>u\<close> and the context of \<open>this\<close> is unchanged; a later
  \<open>setUser\<close> on either container leaves the user of the other alone; and a token
  whose singleton instance is cached in the parent resolves to that same instance in the
  parent, before and after, and in \<open>d\<close>, without changing the store.
\<close>

theorem withUser_shares_registry:
  assumes "valid_container s this" and "withUser s this u = (s', d)"
  shows "d \<noteq> this \<and> valid_container s' d \<and>
         registry_ref (containers s' ! d) = registry_ref (containers s' ! this) \<and>
         user (getContext s' d) = Some u \<and>
         getContext s' this = getContext s this \<and>
         user (getContext (setUser s' d u') this) = user (getContext s this) \<and>
         user (getContext (setUser s' this u') d) = Some u \<and>
         registry_of (register s' d token' cls opt) this =
           registry_of (register s' d token' cls opt) d \<and>
         (registry_get (registry_of s this) token = Registered r \<and> singleton r \<and>
          instance_value r \<noteq> JUndefined \<longrightarrow>
            resolve s this token = Inr (instance_value r, s) \<and>
            resolve s' d token = Inr (instance_value r, s') \<and>
            resolve s' this token = Inr (instance_value r, s'))"
proof -
  note d = withUser_derived [OF assms]
  note k = withUser_keeps [OF assms assms(1)]
  have su: "user (getContext (setUser s' d u') this) = user (getContext s this)"
    using d(5) k(3) assms(1) by (simp add: setUser_def getContext_def)
  have su': "user (getContext (setUser s' this u') d) = Some u"
    using d(4,5) by (simp add: setUser_def getContext_def)
  have "resolve s this token = Inr (instance_value r, s) \<and>
        resolve s' d token = Inr (instance_value r, s') \<and>
        resolve s' this token = Inr (instance_value r, s')"
    if "registry_get (registry_of s this) token = Registered r" "instance_value r \<noteq> JUndefined"
    using that resolve_cached [of s this token r] resolve_cached [of s' d token r]
      resolve_cached [of s' this token r] d(2) k(2)
    by simp
  moreover have "registry_of (register s' d token' cls opt) this =
                   registry_of (register s' d token' cls opt) d"
    using d(3) by (simp add: register_def registry_of_def)
  ultimately show ?thesis
    using d k su su' by blast
qed


theorem withUser_shares_registry_witness:
  "resolve resolved_state 0 ''userService'' = Inr (JInstance 0, resolved_state) \<and>
   resolve (fst (withUser resolved_state 0 ann)) (snd (withUser resolved_state 0 ann))
       ''userService'' = Inr (JInstance 0, fst (withUser resolved_state 0 ann)) \<and>
   user (getContext (fst (withUser resolved_state 0 ann)) (snd (withUser resolved_state 0 ann)))
     = Some ann \<and>
   user (getContext (fst (withUser resolved_state 0 ann)) 0) = None"
proof -
  have g: "registry_get (registry_of resolved_state 0) ''userService'' =
     Registered \<lparr> constructor = Class ''UserService'', singleton = True,
                  instance_value = JInstance 0 \<rparr>"
    by code_simp
  have u: "user (getContext resolved_state 0) = None"
    by code_simp
  have w: "withUser resolved_state 0 ann =
             (fst (withUser resolved_state 0 ann), snd (withUser resolved_state 0 ann))"
    by simp
  show ?thesis
    using withUser_shares_registry [OF resolved_valid w, where token = "''userService''"
        and r = "\<lparr> constructor = Class ''UserService'', singleton = True,
                  instance_value = JInstance 0 \<rparr>"] g u
    by simp
qed

lemma withUsers_keeps:
  assumes "valid_container s this" and "withUsers s this us = (s', d)"
    and "valid_container s c"
  shows "valid_container s' c \<and> registry_of s' c = registry_of s c \<and>
         getContext s' c = getContext s c"
  using assms
proof (induction us arbitrary: s this)
  case Nil
  then show ?case by simp
next
  case (Cons u us)
  obtain s1 d1 where w: "withUser s this u = (s1, d1)" by (cases "withUser s this u")
  have r: "withUsers s1 d1 us = (s', d)" using Cons.prems(2) w by simp
  note k = withUser_keeps [OF Cons.prems(1) w Cons.prems(3)]
  note dd = withUser_derived [OF Cons.prems(1) w]
  show ?case
    using Cons.IH [OF dd(1) r k(1)] k by simp
qed

lemma withUsers_derived:
  assumes "valid_container s this" and "withUsers s this us = (s', d)"
  shows "valid_container s' d \<and> registry_of s' d = registry_of s this"
  using assms
proof (induction us arbitrary: s this)
  case Nil
  then show ?case by simp
next
  case (Cons u us)
  obtain s1 d1 where w: "withUser s this u = (s1, d1)" by (cases "withUser s this u")
  have r: "withUsers s1 d1 us = (s', d)" using Cons.prems(2) w by simp
  note dd = withUser_derived [OF Cons.prems(1) w]
  show ?case
    using Cons.IH [OF dd(1) r] dd(2) by simp
qed

text \<open>
  C8, as stated, fails for the value \<open>undefined\<close>: \<open>resolve\<close> recognises a stored
  value by \<open>instance !== undefined\<close>, so after \<open>registerValue(token, undefined)\<close> it
  goes on to \<open>new\<close> on the stored arrow function, which is a \<open>TypeError\<close>.
\<close>

theorem registerValue_undefined_not_resolvable:
  "resolve (registerValue fresh_state 0 ''database'' JUndefined) 0 ''database'' =
     Inl NotAConstructor"
  by code_simp

text \<open>
  C8, amended: for every value \<open>v\<close> other than \<open>undefined\<close>, after
  \<open>registerValue(token, v)\<close> a \<open>resolve(token)\<close> returns \<open>v\<close> and leaves the store as
  it is (so every later one does too), in the container itself and, after any chain of
  \<open>withUser\<close> calls, in the last derived container and in the parent.
\<close>

theorem registerValue_resolves_to_value:
  assumes "valid_container s this" and "v \<noteq> JUndefined"
    and "withUsers (registerValue s this token v) this us = (s', d)"
  shows "resolve (registerValue s this token v) this token =
           Inr (v, registerValue s this token v) \<and>
         resolve s' d token = Inr (v, s') \<and> resolve s' this token = Inr (v, s')"
proof -
  let ?s1 = "registerValue s this token v"
  let ?r = "\<lparr> constructor = ValueThunk v, singleton = True, instance_value = v \<rparr>"
  have v1: "valid_container ?s1 this"
    using assms(1) by (simp add: registerValue_def)
  have g: "registry_get (registry_of ?s1 this) token = Registered ?r"
    using assms(1) by (simp add: registerValue_def registry_of_update registry_get_set)
  have gd: "registry_get (registry_of s' d) token = Registered ?r"
    using withUsers_derived [OF v1 assms(3)] g by simp
  have gp: "registry_get (registry_of s' this) token = Registered ?r"
    using withUsers_keeps [OF v1 assms(3) v1] g by simp
  show ?thesis
    using resolve_cached [OF g] resolve_cached [OF gd] resolve_cached [OF gp] assms(2)
    by simp
qed

theorem registerValue_resolves_to_value_witness:
  "resolve (fst (withUsers (registerValue fresh_state 0 ''database'' JNull) 0 [ann, bob]))
           (snd (withUsers (registerValue fresh_state 0 ''database'' JNull) 0 [ann, bob]))
           ''database'' =
     Inr (JNull, fst (withUsers (registerValue fresh_state 0 ''database'' JNull) 0 [ann, bob])) \<and>
   snd (withUsers (registerValue fresh_state 0 ''database'' JNull) 0 [ann, bob]) = 2 \<and>
   resolve (registerValue fresh_state 0 ''database'' JNull) 0 ''database'' =
     Inr (JNull, registerValue fresh_state 0 ''database'' JNull)"
proof -
  have w: "withUsers (registerValue fresh_state 0 ''database'' JNull) 0 [ann, bob] =
             (fst (withUsers (registerValue fresh_state 0 ''database'' JNull) 0 [ann, bob]),
              snd (withUsers (registerValue fresh_state 0 ''database'' JNull) 0 [ann, bob]))"
    by simp
  have n: "snd (withUsers (registerValue fresh_state 0 ''database'' JNull) 0 [ann, bob]) = 2"
    by code_simp
  have u: "JNull \<noteq> JUndefined" by simp
  show ?thesis
    using registerValue_resolves_to_value [OF fresh_valid u w] n
    by simp
qed

end
